theory Spec2Isabelle
  imports Complex_Main "HOL-Library.Sublist"
begin

section \<open>JavaScript strings\<close>

text \<open>
  A JavaScript string is modelled as a \<^typ>\<open>string\<close>; each \<^typ>\<open>char\<close> stands for one
  code unit below 256 (ASCII and Latin-1). Code units from 256 on are outside the model.
\<close>

text \<open>White space as \<^verbatim>\<open>String.prototype.trim\<close> and the regular-expression class
  \<^verbatim>\<open>\s\<close> see it, below code unit 256: TAB, LF, VT, FF, CR, SPACE and NBSP.\<close>

definition is_space :: "char \<Rightarrow> bool" where
  "is_space c = (c \<in> set [CHR 0x09, CHR 0x0A, CHR 0x0B, CHR 0x0C, CHR 0x0D, CHR 0x20, CHR 0xA0])"

definition trim :: "string \<Rightarrow> string" where
  "trim s = rev (dropWhile is_space (rev (dropWhile is_space s)))"

text \<open>Case folding of a regular expression with the \<^verbatim>\<open>i\<close> flag: a pattern letter
  of ASCII matches exactly its two ASCII cases (a code unit from 128 on never folds to ASCII).\<close>

definition upper_ascii :: "char \<Rightarrow> char" where
  "upper_ascii c =
     (case map_of (zip ''abcdefghijklmnopqrstuvwxyz'' ''ABCDEFGHIJKLMNOPQRSTUVWXYZ'') c of
        Some d \<Rightarrow> d | None \<Rightarrow> c)"

definition starts_with_ci :: "string \<Rightarrow> string \<Rightarrow> bool" where
  "starts_with_ci kw s =
     (length kw \<le> length s \<and> map upper_ascii (take (length kw) s) = map upper_ascii kw)"



text \<open>\<^verbatim>\<open>String.prototype.toLowerCase\<close> on code units below 256: the ASCII capitals
  and the Latin-1 capitals (0xC0 to 0xDE without the multiplication sign 0xD7) move up by 32.\<close>

definition upper_letters :: string where
  "upper_letters = ''ABCDEFGHIJKLMNOPQRSTUVWXYZ'' @
     [CHR 0xC0, CHR 0xC1, CHR 0xC2, CHR 0xC3, CHR 0xC4, CHR 0xC5, CHR 0xC6, CHR 0xC7, CHR 0xC8,
      CHR 0xC9, CHR 0xCA, CHR 0xCB, CHR 0xCC, CHR 0xCD, CHR 0xCE, CHR 0xCF, CHR 0xD0, CHR 0xD1,
      CHR 0xD2, CHR 0xD3, CHR 0xD4, CHR 0xD5, CHR 0xD6, CHR 0xD8, CHR 0xD9, CHR 0xDA, CHR 0xDB,
      CHR 0xDC, CHR 0xDD, CHR 0xDE]"

definition lower_letters :: string where
  "lower_letters = ''abcdefghijklmnopqrstuvwxyz'' @
     [CHR 0xE0, CHR 0xE1, CHR 0xE2, CHR 0xE3, CHR 0xE4, CHR 0xE5, CHR 0xE6, CHR 0xE7, CHR 0xE8,
      CHR 0xE9, CHR 0xEA, CHR 0xEB, CHR 0xEC, CHR 0xED, CHR 0xEE, CHR 0xEF, CHR 0xF0, CHR 0xF1,
      CHR 0xF2, CHR 0xF3, CHR 0xF4, CHR 0xF5, CHR 0xF6, CHR 0xF8, CHR 0xF9, CHR 0xFA, CHR 0xFB,
      CHR 0xFC, CHR 0xFD, CHR 0xFE]"

definition lower_char :: "char \<Rightarrow> char" where
  "lower_char c = (case map_of (zip upper_letters lower_letters) c of Some d \<Rightarrow> d | None \<Rightarrow> c)"

definition toLowerCase :: "string \<Rightarrow> string" where
  "toLowerCase s = map lower_char s"

text \<open>The class \<^verbatim>\<open>\w\<close> of a regular expression: ASCII letters, digits and the
  underscore.\<close>

definition is_word_char :: "char \<Rightarrow> bool" where
  "is_word_char c =
     (c \<in> set ''abcdefghijklmnopqrstuvwxyzABCDEFGHIJKLMNOPQRSTUVWXYZ0123456789_'')"

text \<open>\<^verbatim>\<open>s.split(/\W+/)\<close>: the pieces between maximal runs of non-word characters; a
  separator at either end leaves an empty piece there, and the empty string gives one empty
  piece.\<close>

function split_nonword :: "string \<Rightarrow> string list" where
  "split_nonword s =
     (let w = takeWhile is_word_char s; r = dropWhile is_word_char s in
      if r = [] then [w]
      else w # split_nonword (dropWhile (\<lambda>c. \<not> is_word_char c) r))"
  by pat_completeness auto
termination
proof (relation "measure length", goal_cases)
  case 1
  show ?case by simp
next
  case (2 s w r)
  from 2 obtain c cs where r: "dropWhile is_word_char s = c # cs"
    by (cases "dropWhile is_word_char s") auto
  then have "\<not> is_word_char c"
    by (metis hd_dropWhile list.sel(1) list.distinct(1))
  then have "dropWhile (\<lambda>c. \<not> is_word_char c) (c # cs) = dropWhile (\<lambda>c. \<not> is_word_char c) cs"
    by simp
  moreover have "length (dropWhile (\<lambda>c. \<not> is_word_char c) cs) \<le> length cs"
    by (rule length_dropWhile_le)
  moreover have "length (c # cs) \<le> length s"
    unfolding r[symmetric] by (rule length_dropWhile_le)
  ultimately show ?case using 2 r by simp
qed

declare split_nonword.simps [simp del]

text \<open>\<^verbatim>\<open>new Set(xs)\<close>, as the list of its members in insertion order: the first
  occurrence of each value stays.\<close>

fun js_set :: "'a list \<Rightarrow> 'a list" where
  "js_set [] = []"
| "js_set (x # xs) = x # js_set (filter (\<lambda>y. y \<noteq> x) xs)"

text \<open>\<^verbatim>\<open>hay.includes(needle)\<close>.\<close>

fun str_includes :: "string \<Rightarrow> string \<Rightarrow> bool" where
  "str_includes [] needle = (needle = [])"
| "str_includes (c # cs) needle = (prefix needle (c # cs) \<or> str_includes cs needle)"

section \<open>Errors\<close>

text \<open>A raised \<^verbatim>\<open>Error\<close> object: its message and, when set, its \<^verbatim>\<open>statusCode\<close>. A
  function that can raise returns \<open>js_error + 'a\<close>, \<^term>\<open>Inl\<close> being the raise.\<close>

record js_error =
  statusCode :: "nat option"
  message :: string

section \<open>SqlGenerationService.cleanSQLResponse\<close>









section \<open>SqlGenerationService.findSimilarQueries\<close>

record kb_entry =
  query :: string
  userPrompt :: string
  tables :: "string list"
  joins :: "string list"
  whereConditions :: string
  resultCount :: nat
  timestamp :: string

record scored_entry = kb_entry +
  similarity :: real

text \<open>The words of a prompt: lower case, split at non-word characters, words of more
  than two characters only, as a set.\<close>

definition prompt_words :: "string \<Rightarrow> string list" where
  "prompt_words p = js_set (filter (\<lambda>w. length w > 2) (split_nonword (toLowerCase p)))"

text \<open>\<^verbatim>\<open>overlap / Math.max(promptWords.size, entryWords.size)\<close>. With both sets empty
  JavaScript computes \<^verbatim>\<open>0 / 0 = NaN\<close>, here \<^term>\<open>None\<close>; the comparison
  \<^verbatim>\<open>NaN > 0.3\<close> is false.\<close>

definition word_similarity :: "string list \<Rightarrow> string list \<Rightarrow> real option" where
  "word_similarity promptWords entryWords =
     (let overlap = length (filter (\<lambda>w. w \<in> set entryWords) promptWords);
          m = max (length promptWords) (length entryWords)
      in if m = 0 then None else Some (real overlap / real m))"

definition score_entry :: "string list \<Rightarrow> kb_entry \<Rightarrow> scored_entry option" where
  "score_entry promptWords entry =
     (case word_similarity promptWords (prompt_words (userPrompt entry)) of
        None \<Rightarrow> None
      | Some x \<Rightarrow> if x > 3 / 10 then Some (kb_entry.extend entry \<lparr>similarity = x\<rparr>) else None)"

text \<open>The map and the filter of the source in one pass (an entry is kept when its
  similarity exceeds 0.3), then the stable sort by descending similarity and
  \<^verbatim>\<open>slice(0, 3)\<close>.\<close>

definition findSimilarQueries :: "kb_entry list \<Rightarrow> string \<Rightarrow> scored_entry list" where
  "findSimilarQueries successfulQueries prompt =
     (let promptWords = prompt_words prompt in
      take 3 (sort_key (\<lambda>e. - similarity e)
                (List.map_filter (score_entry promptWords) successfulQueries)))"

text \<open>A knowledge base of two learned queries, for the examples.\<close>

definition kb_example :: "kb_entry list" where
  "kb_example =
     [\<lparr>query = ''SELECT * FROM users'', userPrompt = ''List all users'', tables = [''users''],
       joins = [], whereConditions = [], resultCount = 4, timestamp = ''2024-01-01''\<rparr>,
      \<lparr>query = ''SELECT * FROM orders'', userPrompt = ''orders of all users!'',
       tables = [''orders''], joins = [], whereConditions = [], resultCount = 9,
       timestamp = ''2024-01-02''\<rparr>]"

section \<open>Rows of a query result\<close>

text \<open>
  A value of a row: a scalar or a nested array. Numbers are the finite ones, as reals;
  \<^term>\<open>JNaN\<close> is the number NaN. A row is an object, modelled as the list of its own
  properties in insertion order.
\<close>

datatype jsval =
    JUndefined
  | JNull
  | JBool bool
  | JNum real
  | JNaN
  | JStr string
  | JArr "jsval list"

type_synonym row = "(string \<times> jsval) list"

text \<open>\<^verbatim>\<open>row[field]\<close>: a missing property reads as \<^verbatim>\<open>undefined\<close>.\<close>

definition get_field :: "row \<Rightarrow> string \<Rightarrow> jsval" where
  "get_field r f = (case map_of r f of None \<Rightarrow> JUndefined | Some v \<Rightarrow> v)"

text \<open>
  The built-in \<^verbatim>\<open>parseFloat\<close> is a parameter \<open>parseFloat :: jsval \<Rightarrow> real option\<close> of the
  functions below, \<^term>\<open>None\<close> standing for NaN. A plain instance, for the examples: numbers
  parse to themselves, everything else to NaN.
\<close>

fun parseFloat_num :: "jsval \<Rightarrow> real option" where
  "parseFloat_num (JNum x) = Some x"
| "parseFloat_num _ = None"

text \<open>\<^verbatim>\<open>data.map(item => parseFloat(item[field])).filter(val => !isNaN(val))\<close>\<close>

definition numeric_values :: "(jsval \<Rightarrow> real option) \<Rightarrow> row list \<Rightarrow> string \<Rightarrow> real list" where
  "numeric_values parseFloat data field =
     List.map_filter (\<lambda>item. parseFloat (get_field item field)) data"

section \<open>AnalyticsService: detectOutliers (interquartile range)\<close>

record outlier_result =
  outliers :: "row list"
  normalData :: "row list"
  bounds :: "(real \<times> real) option"
  quartiles :: "(real \<times> real) option"

text \<open>The indices \<^verbatim>\<open>Math.floor(n * 0.25)\<close> and \<^verbatim>\<open>Math.floor(n * 0.75)\<close> are
  \<open>n div 4\<close> and \<open>3 * n div 4\<close>; both lie below \<open>n\<close> when they are used.\<close>

definition detectOutliers ::
  "(jsval \<Rightarrow> real option) \<Rightarrow> row list \<Rightarrow> string \<Rightarrow> outlier_result" where
  "detectOutliers parseFloat data field =
     (if length data < 4 then
        \<lparr>outliers = [], normalData = data, bounds = None, quartiles = None\<rparr>
      else
        let values = numeric_values parseFloat data field in
        if length values < 4 then
          \<lparr>outliers = [], normalData = data, bounds = None, quartiles = None\<rparr>
        else
          let sorted_values = sort values;
              q1Idx = length sorted_values div 4;
              q3Idx = (3 * length sorted_values) div 4;
              q1 = sorted_values ! q1Idx;
              q3 = sorted_values ! q3Idx;
              iqr = q3 - q1;
              lowerBound = q1 - 3 / 2 * iqr;
              upperBound = q3 + 3 / 2 * iqr
          in \<lparr>outliers =
                 filter (\<lambda>item. case parseFloat (get_field item field) of
                                   None \<Rightarrow> False
                                 | Some val \<Rightarrow> val < lowerBound \<or> val > upperBound) data,
               normalData =
                 filter (\<lambda>item. case parseFloat (get_field item field) of
                                   None \<Rightarrow> True
                                 | Some val \<Rightarrow> val \<ge> lowerBound \<and> val \<le> upperBound) data,
               bounds = Some (lowerBound, upperBound),
               quartiles = Some (q1, q3)\<rparr>)"

text \<open>Five rows of which three carry a number, and six rows with one far value.\<close>

definition few_numbers :: "row list" where
  "few_numbers =
     [[(''price'', JNum 10)], [(''price'', JStr ''n/a'')], [(''price'', JNum 12)],
      [(''price'', JNull)], [(''price'', JNum 500)]]"

definition six_prices :: "row list" where
  "six_prices =
     [[(''price'', JNum 10)], [(''price'', JNum 11)], [(''price'', JNum 12)],
      [(''price'', JNum 13)], [(''price'', JNum 14)], [(''price'', JNum 500)]]"

section \<open>AnalyticsService: detectTrend\<close>

text \<open>
  detectTrend computes with JavaScript numbers. Their arithmetic is not modelled: the type
  \<open>'d\<close> of numbers and every operation the function uses on them are parameters, collected
  in a record, so that what is proved holds for the arithmetic of IEEE doubles as for any
  other. The fields: \<open>d_num\<close> turns a length or an index into a number; \<open>d_add\<close>,
  \<open>d_sub\<close>, \<open>d_mul\<close> and \<open>d_div\<close> are \<^verbatim>\<open>+ - * /\<close>; \<open>d_abs\<close> is \<^verbatim>\<open>Math.abs\<close>;
  \<open>d_lt x y\<close> is \<^verbatim>\<open>x < y\<close>; \<open>d_is_zero x\<close> is \<^verbatim>\<open>x === 0\<close>; \<open>d_is_nan\<close> is
  \<^verbatim>\<open>isNaN\<close>; \<open>d_sum\<close> is the function \<^verbatim>\<open>sum\<close> of the statistics library; the rest are
  the literals \<^verbatim>\<open>0\<close>, \<^verbatim>\<open>0.01\<close>, \<^verbatim>\<open>0.1\<close>, \<^verbatim>\<open>-0.1\<close> and \<^verbatim>\<open>100\<close>.
\<close>

record 'd arith =
  d_num :: "nat \<Rightarrow> 'd"
  d_add :: "'d \<Rightarrow> 'd \<Rightarrow> 'd"
  d_sub :: "'d \<Rightarrow> 'd \<Rightarrow> 'd"
  d_mul :: "'d \<Rightarrow> 'd \<Rightarrow> 'd"
  d_div :: "'d \<Rightarrow> 'd \<Rightarrow> 'd"
  d_abs :: "'d \<Rightarrow> 'd"
  d_lt :: "'d \<Rightarrow> 'd \<Rightarrow> bool"
  d_is_zero :: "'d \<Rightarrow> bool"
  d_is_nan :: "'d \<Rightarrow> bool"
  d_sum :: "'d list \<Rightarrow> 'd"
  d_0 :: 'd
  d_0_01 :: 'd
  d_0_1 :: 'd
  d_neg_0_1 :: 'd
  d_100 :: 'd

text \<open>
  \<^verbatim>\<open>[...data].sort((a, b) => new Date(a[timeField]) - new Date(b[timeField]))\<close>.
  The time value of a date, NaN for an invalid one, is the parameter \<open>dateMs\<close>, and the sort
  of the engine is the parameter \<open>array_sort\<close>: with an invalid date the comparator is
  not consistent, and the order then depends on the engine.
\<close>

definition time_compare :: "'d arith \<Rightarrow> (jsval \<Rightarrow> 'd) \<Rightarrow> string \<Rightarrow> row \<Rightarrow> row \<Rightarrow> 'd" where
  "time_compare M dateMs timeField a b =
     d_sub M (dateMs (get_field a timeField)) (dateMs (get_field b timeField))"

text \<open>
  \<^verbatim>\<open>sortedData.map(item => parseFloat(item[valueField])).filter(val => !isNaN(val))\<close>:
  the numeric values of the field, in time order.
\<close>

definition trend_series ::
  "'d arith \<Rightarrow> (jsval \<Rightarrow> 'd) \<Rightarrow> (jsval \<Rightarrow> 'd) \<Rightarrow> ((row \<Rightarrow> row \<Rightarrow> 'd) \<Rightarrow> row list \<Rightarrow> row list) \<Rightarrow>
   row list \<Rightarrow> string \<Rightarrow> string \<Rightarrow> 'd list" where
  "trend_series M parseFloat dateMs array_sort data valueField timeField =
     (let sortedData = array_sort (time_compare M dateMs timeField) data
      in filter (\<lambda>val. \<not> d_is_nan M val)
           (map (\<lambda>item. parseFloat (get_field item valueField)) sortedData))"

text \<open>The slope of the regression line of the values against their indices
  \<open>0, \<dots>, n - 1\<close>. Its division is the plain one of JavaScript.\<close>

definition regression_slope :: "'d arith \<Rightarrow> 'd list \<Rightarrow> 'd" where
  "regression_slope M values =
     (let n = length values;
          indices = map (d_num M) [0..<n];
          sumX = d_sum M indices;
          sumY = d_sum M values;
          sumXY = d_sum M (map (\<lambda>i. d_mul M (indices ! i) (values ! i)) [0..<n]);
          sumXX = d_sum M (map (\<lambda>x. d_mul M x x) indices)
      in d_div M (d_sub M (d_mul M (d_num M n) sumXY) (d_mul M sumX sumY))
                 (d_sub M (d_mul M (d_num M n) sumXX) (d_mul M sumX sumX)))"

definition classify_slope :: "'d arith \<Rightarrow> 'd \<Rightarrow> string" where
  "classify_slope M s =
     (if d_lt M (d_abs M s) (d_0_01 M) then ''stable''
      else if d_lt M (d_0 M) s then
        (if d_lt M (d_0_1 M) s then ''strong increase'' else ''slight increase'')
      else
        (if d_lt M s (d_neg_0_1 M) then ''strong decrease'' else ''slight decrease''))"

text \<open>
  A division by zero does not raise in JavaScript, it gives an infinity or NaN. In the
  percent change the model marks it, so that its absence can be stated.
\<close>

datatype arith_error = DivisionByZero

definition checked_div :: "'d arith \<Rightarrow> 'd \<Rightarrow> 'd \<Rightarrow> arith_error + 'd" where
  "checked_div M a b = (if d_is_zero M b then Inl DivisionByZero else Inr (d_div M a b))"

definition percent_change :: "'d arith \<Rightarrow> 'd \<Rightarrow> 'd \<Rightarrow> arith_error + 'd" where
  "percent_change M first_value last_value =
     (if \<not> d_is_zero M first_value then
        (case checked_div M (d_sub M last_value first_value) first_value of
           Inl e \<Rightarrow> Inl e
         | Inr q \<Rightarrow> Inr (d_mul M q (d_100 M)))
      else if \<not> d_is_zero M last_value then Inr (d_100 M)
      else Inr (d_0 M))"

record 'd trend_info =
  trend :: string
  slope :: 'd
  firstValue :: 'd
  lastValue :: 'd
  changePercent :: 'd

datatype 'd trend_result = TrendOnly string | TrendFull "'d trend_info"

definition detectTrend ::
  "'d arith \<Rightarrow> (jsval \<Rightarrow> 'd) \<Rightarrow> (jsval \<Rightarrow> 'd) \<Rightarrow> ((row \<Rightarrow> row \<Rightarrow> 'd) \<Rightarrow> row list \<Rightarrow> row list) \<Rightarrow>
   row list \<Rightarrow> string \<Rightarrow> string \<Rightarrow> arith_error + 'd trend_result" where
  "detectTrend M parseFloat dateMs array_sort data valueField timeField =
     (if length data < 3 then Inr (TrendOnly ''insufficient data'')
      else
        let values = trend_series M parseFloat dateMs array_sort data valueField timeField in
        if length values < 3 then Inr (TrendOnly ''insufficient valid data'')
        else
          let s = regression_slope M values;
              label = classify_slope M s
          in case percent_change M (values ! 0) (values ! (length values - 1)) of
               Inl e \<Rightarrow> Inl e
             | Inr cp \<Rightarrow>
                 Inr (TrendFull \<lparr>trend = label, slope = s,
                                 firstValue = values ! 0,
                                 lastValue = values ! (length values - 1),
                                 changePercent = cp\<rparr>))"

text \<open>
  Two facts of the arithmetic of doubles about \<^verbatim>\<open>Math.abs\<close>, true of NaN and of both
  zeros as well: a number above 0 is its own absolute value, and a number not above 0 is
  below -0.1 exactly when its absolute value is above 0.1.
\<close>

definition abs_laws :: "'d arith \<Rightarrow> bool" where
  "abs_laws M =
     ((\<forall>x. d_lt M (d_0 M) x \<longrightarrow> d_abs M x = x) \<and>
      (\<forall>x. \<not> d_lt M (d_0 M) x \<longrightarrow> (d_lt M x (d_neg_0_1 M) \<longleftrightarrow> d_lt M (d_0_1 M) (d_abs M x))))"

text \<open>
  For the examples only: an exact arithmetic on the reals, with \<^term>\<open>None\<close> for NaN and
  for whatever is undefined; parsers that take a number as it is and anything else as NaN;
  an insertion sort that reads a NaN of the comparator as 0; three days of sales, out of
  order, that start at zero.
\<close>

definition lift2 :: "(real \<Rightarrow> real \<Rightarrow> real) \<Rightarrow> real option \<Rightarrow> real option \<Rightarrow> real option" where
  "lift2 f a b = (case (a, b) of (Some x, Some y) \<Rightarrow> Some (f x y) | _ \<Rightarrow> None)"

definition exact_arith :: "(real option) arith" where
  "exact_arith =
     \<lparr>d_num = (\<lambda>n. Some (real n)),
      d_add = lift2 (+),
      d_sub = lift2 (-),
      d_mul = lift2 (*),
      d_div = (\<lambda>a b. if b = Some 0 then None else lift2 (/) a b),
      d_abs = map_option abs,
      d_lt = (\<lambda>a b. case (a, b) of (Some x, Some y) \<Rightarrow> x < y | _ \<Rightarrow> False),
      d_is_zero = (\<lambda>a. a = Some 0),
      d_is_nan = (\<lambda>a. a = None),
      d_sum = (\<lambda>xs. fold (\<lambda>x s. lift2 (+) s x) xs (Some 0)),
      d_0 = Some 0,
      d_0_01 = Some (1 / 100),
      d_0_1 = Some (1 / 10),
      d_neg_0_1 = Some (- (1 / 10)),
      d_100 = Some 100\<rparr>"

fun insert_by :: "('a \<Rightarrow> 'a \<Rightarrow> real option) \<Rightarrow> 'a \<Rightarrow> 'a list \<Rightarrow> 'a list" where
  "insert_by cmp x [] = [x]"
| "insert_by cmp x (y # ys) =
     (if (case cmp x y of Some c \<Rightarrow> c \<le> 0 | None \<Rightarrow> True) then x # y # ys
      else y # insert_by cmp x ys)"

definition insertion_sort :: "('a \<Rightarrow> 'a \<Rightarrow> real option) \<Rightarrow> 'a list \<Rightarrow> 'a list" where
  "insertion_sort cmp xs = foldr (insert_by cmp) xs []"

definition from_zero :: "row list" where
  "from_zero =
     [[(''day'', JNum 3), (''sales'', JNum 8)], [(''day'', JNum 1), (''sales'', JNum 0)],
      [(''day'', JNum 2), (''sales'', JNum 4)]]"

section \<open>AnalyticsService: calculateCorrelation and calculateCorrelationMatrix\<close>

text \<open>
  The numbers of this part are only carried, never computed with: a number is NaN, an
  infinity, or a finite value (the two zeros are one value, as \<^verbatim>\<open>==\<close> sees them).
  The built-in \<^verbatim>\<open>parseFloat\<close> and the library function \<^verbatim>\<open>sampleCorrelation\<close> are
  parameters. The correlation can be NaN (a column without variance divides zero by zero)
  and it can raise, \<^term>\<open>None\<close> here, which calculateCorrelation catches and turns into
  \<^verbatim>\<open>null\<close>.
\<close>

datatype js_number = NaN | PosInfinity | NegInfinity | Finite real

text \<open>An entry of the matrix is \<^verbatim>\<open>null\<close> or a number.\<close>

datatype entry = ENull | ENum js_number

text \<open>The comparison \<^verbatim>\<open>==\<close> (and \<^verbatim>\<open>===\<close>) of two entries: NaN equals nothing, not
  even itself.\<close>

fun js_equal :: "entry \<Rightarrow> entry \<Rightarrow> bool" where
  "js_equal ENull ENull = True"
| "js_equal (ENum x) (ENum y) = (x \<noteq> NaN \<and> y \<noteq> NaN \<and> x = y)"
| "js_equal ENull (ENum y) = False"
| "js_equal (ENum x) ENull = False"

definition calculateCorrelation ::
  "(jsval \<Rightarrow> js_number) \<Rightarrow> (js_number list \<Rightarrow> js_number list \<Rightarrow> js_number option) \<Rightarrow>
   row list \<Rightarrow> string \<Rightarrow> string \<Rightarrow> entry" where
  "calculateCorrelation parseFloat sampleCorrelation data fieldX fieldY =
     (if length data < 3 then ENull
      else
        let pairs = filter (\<lambda>pair. fst pair \<noteq> NaN \<and> snd pair \<noteq> NaN)
              (map (\<lambda>item. (parseFloat (get_field item fieldX), parseFloat (get_field item fieldY)))
                 data)
        in if length pairs < 3 then ENull
           else case sampleCorrelation (map fst pairs) (map snd pairs) of
                  Some c \<Rightarrow> ENum c
                | None \<Rightarrow> ENull)"

text \<open>
  The matrix is an object of objects, \<open>matrix[field1][field2]\<close>, modelled as a map of maps;
  the list of field names (\<^verbatim>\<open>fields\<close> in the source) is \<open>flds\<close> here. A map describes
  an object for every property name but \<^verbatim>\<open>__proto__\<close>, whose assignment replaces the
  prototype of the object instead of adding a property: with such a field name the model
  stops and answers \<open>PrototypeKey\<close>, which says nothing about what the code returns then.
\<close>

type_synonym matrix = "string \<rightharpoonup> (string \<rightharpoonup> entry)"

datatype matrix_result = InsufficientData string | Matrix matrix | PrototypeKey

definition matrix_get :: "matrix \<Rightarrow> string \<Rightarrow> string \<Rightarrow> entry option" where
  "matrix_get m a b = (case m a of None \<Rightarrow> None | Some r \<Rightarrow> r b)"

text \<open>\<^verbatim>\<open>matrix[a][b] = c\<close>. Every field has its row by the time a correlation is
  stored, so the row is there (on a missing row JavaScript would raise).\<close>

definition matrix_set :: "matrix \<Rightarrow> string \<Rightarrow> string \<Rightarrow> entry \<Rightarrow> matrix" where
  "matrix_set m a b c = (case m a of None \<Rightarrow> m | Some r \<Rightarrow> m(a \<mapsto> r(b \<mapsto> c)))"

definition init_row :: "string list \<Rightarrow> string \<Rightarrow> (string \<rightharpoonup> entry)" where
  "init_row flds field1 =
     fold (\<lambda>field2 r. r(field2 \<mapsto> (if field1 = field2 then ENum (Finite 1) else ENull)))
          flds Map.empty"

definition init_matrix :: "string list \<Rightarrow> matrix" where
  "init_matrix flds = fold (\<lambda>field1 m. m(field1 \<mapsto> init_row flds field1)) flds Map.empty"

definition correlate_pair ::
  "(jsval \<Rightarrow> js_number) \<Rightarrow> (js_number list \<Rightarrow> js_number list \<Rightarrow> js_number option) \<Rightarrow>
   row list \<Rightarrow> string list \<Rightarrow> nat \<Rightarrow> nat \<Rightarrow> matrix \<Rightarrow> matrix" where
  "correlate_pair parseFloat sampleCorrelation data flds i j m =
     (let field1 = flds ! i;
          field2 = flds ! j;
          correlation = calculateCorrelation parseFloat sampleCorrelation data field1 field2
      in matrix_set (matrix_set m field1 field2 correlation) field2 field1 correlation)"

text \<open>\<^verbatim>\<open>for (i = 0; i < n; i++) for (j = i + 1; j < n; j++) \<dots>\<close>\<close>

definition correlate_row ::
  "(jsval \<Rightarrow> js_number) \<Rightarrow> (js_number list \<Rightarrow> js_number list \<Rightarrow> js_number option) \<Rightarrow>
   row list \<Rightarrow> string list \<Rightarrow> nat \<Rightarrow> matrix \<Rightarrow> matrix" where
  "correlate_row parseFloat sampleCorrelation data flds i m =
     fold (correlate_pair parseFloat sampleCorrelation data flds i) [Suc i..<length flds] m"

definition correlate_all ::
  "(jsval \<Rightarrow> js_number) \<Rightarrow> (js_number list \<Rightarrow> js_number list \<Rightarrow> js_number option) \<Rightarrow>
   row list \<Rightarrow> string list \<Rightarrow> matrix \<Rightarrow> matrix" where
  "correlate_all parseFloat sampleCorrelation data flds m =
     fold (correlate_row parseFloat sampleCorrelation data flds) [0..<length flds] m"

definition calculateCorrelationMatrix ::
  "(jsval \<Rightarrow> js_number) \<Rightarrow> (js_number list \<Rightarrow> js_number list \<Rightarrow> js_number option) \<Rightarrow>
   row list \<Rightarrow> string list \<Rightarrow> matrix_result" where
  "calculateCorrelationMatrix parseFloat sampleCorrelation data flds =
     (if data = [] \<or> length flds < 2 then
        InsufficientData ''Insufficient data for correlation matrix''
      else if ''__proto__'' \<in> set flds then PrototypeKey
      else Matrix (correlate_all parseFloat sampleCorrelation data flds (init_matrix flds)))"

text \<open>Reading an entry of the result; nothing is there when no matrix was returned.\<close>

definition correlation_entry :: "matrix_result \<Rightarrow> string \<Rightarrow> string \<Rightarrow> entry option" where
  "correlation_entry res a b = (case res of Matrix m \<Rightarrow> matrix_get m a b | _ \<Rightarrow> None)"

text \<open>
  For the examples: a parser that takes numbers as they are and everything else as NaN; a
  stand-in for the correlation of the library, NaN when a column has no variance; three
  rows, and three rows whose column a is constant.
\<close>

fun parseFloat_number :: "jsval \<Rightarrow> js_number" where
  "parseFloat_number (JNum x) = Finite x"
| "parseFloat_number _ = NaN"

definition standin_correlation :: "js_number list \<Rightarrow> js_number list \<Rightarrow> js_number option" where
  "standin_correlation xs ys =
     Some (if length (remdups xs) \<le> 1 \<or> length (remdups ys) \<le> 1 then NaN else Finite (1 / 2))"

definition three_rows :: "row list" where
  "three_rows =
     [[(''a'', JNum 1), (''b'', JNum 2)], [(''a'', JNum 2), (''b'', JNum 1)],
      [(''a'', JNum 3), (''b'', JNum 5)]]"

definition constant_column :: "row list" where
  "constant_column =
     [[(''a'', JNum 1), (''b'', JNum 1)], [(''a'', JNum 1), (''b'', JNum 2)],
      [(''a'', JNum 1), (''b'', JNum 3)]]"

text \<open>What the loops keep true of the matrix.\<close>

definition rows_ok :: "string list \<Rightarrow> matrix \<Rightarrow> bool" where
  "rows_ok flds m = (\<forall>f\<in>set flds. m f \<noteq> None)"

definition entries_defined :: "string list \<Rightarrow> matrix \<Rightarrow> bool" where
  "entries_defined flds m = (\<forall>a\<in>set flds. \<forall>b\<in>set flds. matrix_get m a b \<noteq> None)"

definition symmetric :: "matrix \<Rightarrow> bool" where
  "symmetric m = (\<forall>a b. matrix_get m a b = matrix_get m b a)"

definition diag_one :: "string list \<Rightarrow> matrix \<Rightarrow> bool" where
  "diag_one flds m = (\<forall>a\<in>set flds. matrix_get m a a = Some (ENum (Finite 1)))"

definition corr_inv :: "string list \<Rightarrow> matrix \<Rightarrow> bool" where
  "corr_inv flds m =
     (rows_ok flds m \<and> entries_defined flds m \<and> symmetric m \<and>
      (distinct flds \<longrightarrow> diag_one flds m))"

text \<open>The pairs of indices the loops have gone through when the outer one is at \<open>i\<close> and
  the inner one at \<open>j\<close>, and the entries they have stored.\<close>

definition pair_done :: "nat \<Rightarrow> nat \<Rightarrow> nat \<Rightarrow> nat \<Rightarrow> nat \<Rightarrow> bool" where
  "pair_done n i j p q = (p < q \<and> q < n \<and> (p < i \<or> (p = i \<and> q < j)))"

definition stored ::
  "(jsval \<Rightarrow> js_number) \<Rightarrow> (js_number list \<Rightarrow> js_number list \<Rightarrow> js_number option) \<Rightarrow>
   row list \<Rightarrow> string list \<Rightarrow> nat \<Rightarrow> nat \<Rightarrow> matrix \<Rightarrow> bool" where
  "stored parseFloat sampleCorrelation data flds i j m =
     (\<forall>p q. pair_done (length flds) i j p q \<longrightarrow>
        matrix_get m (flds ! p) (flds ! q) =
          Some (calculateCorrelation parseFloat sampleCorrelation data (flds ! p) (flds ! q)))"

section \<open>ReportService.chunkJsonData\<close>

text \<open>
  The final response, with the fields the function reads or writes; all others are in
  \<open>others\<close>. The property \<^verbatim>\<open>message\<close> of the response is \<open>statusMessage\<close> here
  (absent in the response that generateReportStream builds), and an absent
  \<^verbatim>\<open>rawDataPending\<close> is \<^term>\<open>False\<close>. The row type is left open.
\<close>

record ('r, 'x) final_response =
  status :: string
  statusMessage :: "string option"
  rawData :: "'r list"
  rawDataPending :: bool
  others :: 'x

text \<open>The arguments of \<^verbatim>\<open>sendUpdate\<close>, in the order of the calls.\<close>

datatype ('r, 'x) update =
    Response "('r, 'x) final_response"
  | RawDataChunk (rawDataChunk: "'r list") (chunkIndex: nat) (totalChunks: nat)
  | RawDataComplete (rowCount: nat)
  | Simplified string string string

definition chunkSize :: nat where
  "chunkSize = 100"

text \<open>
  \<^verbatim>\<open>for (let i = 0; i < data.rawData.length; i += chunkSize)\<close>. The index
  \<^verbatim>\<open>i / chunkSize\<close> is a whole number, \<open>i\<close> being a multiple of the chunk size.
\<close>

function chunk_loop :: "'r list \<Rightarrow> nat \<Rightarrow> ('r, 'x) update list" where
  "chunk_loop rows i =
     (if i < length rows then
        RawDataChunk (take chunkSize (drop i rows)) (i div chunkSize)
                     (nat \<lceil>real (length rows) / real chunkSize\<rceil>)
          # chunk_loop rows (i + chunkSize)
      else [])"
  by pat_completeness auto
termination
  by (relation "measure (\<lambda>(rows, i). length rows - i)") (auto simp: chunkSize_def)

declare chunk_loop.simps [simp del]

text \<open>
  \<^verbatim>\<open>JSON.stringify(data).length\<close> is the parameter \<open>jsonLength\<close>; the serialisation can
  raise (a cyclic value, a BigInt), which the function catches.
\<close>

definition chunkJsonData ::
  "(('r, 'x) final_response \<Rightarrow> js_error + nat) \<Rightarrow> ('r, 'x) final_response
     \<Rightarrow> ('r, 'x) update list" where
  "chunkJsonData jsonLength data =
     (case jsonLength data of
        Inl error \<Rightarrow>
          [Simplified (status data)
             (case statusMessage data of
                None \<Rightarrow> ''Data processed but too large to display completely''
              | Some m \<Rightarrow> if m = [] then ''Data processed but too large to display completely''
                          else m)
             (message error)]
      | Inr len \<Rightarrow>
          if len < 50000 then [Response data]
          else
            let metadataOnly =
                  (if rawData data \<noteq> [] then data\<lparr>rawData := [], rawDataPending := True\<rparr>
                   else data)
            in Response metadataOnly #
               (if rawData data \<noteq> []
                then chunk_loop (rawData data) 0 @ [RawDataComplete (length (rawData data))]
                else []))"

text \<open>For the examples: a serialisation that is always long, one that is always short, and
  responses with 250 rows and with none.\<close>

definition long_json :: "(nat, unit) final_response \<Rightarrow> js_error + nat" where
  "long_json data = Inr 60000"

definition short_json :: "(nat, unit) final_response \<Rightarrow> js_error + nat" where
  "short_json data = Inr 1200"

definition response_250 :: "(nat, unit) final_response" where
  "response_250 =
     \<lparr>status = ''complete'', statusMessage = None, rawData = [0..<250], rawDataPending = False,
      others = ()\<rparr>"

definition response_empty :: "(nat, unit) final_response" where
  "response_empty =
     \<lparr>status = ''complete'', statusMessage = None, rawData = [], rawDataPending = False,
      others = ()\<rparr>"

text \<open>
  The sequence of events as the specification words it, for a serialisation of \<open>len\<close>
  characters: one event below the threshold; otherwise the metadata event, one event per
  slice of 100 rows, and the completion event.
\<close>

definition chunk_events_spec :: "nat \<Rightarrow> ('r, 'x) final_response \<Rightarrow> ('r, 'x) update list" where
  "chunk_events_spec len data =
     (if len < 50000 then [Response data]
      else
        Response (data\<lparr>rawData := [], rawDataPending := True\<rparr>) #
        map (\<lambda>k. RawDataChunk (take 100 (drop (100 * k) (rawData data))) k
                    (nat \<lceil>real (length (rawData data)) / 100\<rceil>))
            [0..<nat \<lceil>real (length (rawData data)) / 100\<rceil>] @
        [RawDataComplete (length (rawData data))])"

section \<open>MistralService: retryWithBackoff and generateMistralResponse\<close>

text \<open>
  What an operation can raise: \<^verbatim>\<open>null\<close> or \<^verbatim>\<open>undefined\<close>, or a value with its
  \<^verbatim>\<open>statusCode\<close> (given when it is a number) and its \<^verbatim>\<open>message\<close> (given when it
  is a string; anything but a string or an absent message is outside the model). An
  \<^verbatim>\<open>Error\<close> object is such a value, and so is one that retryWithBackoff raises itself.
\<close>

datatype thrown = Nullish | Thrown "nat option" "string option"

text \<open>A message inside a template literal or a concatenation.\<close>

definition text_of :: "string option \<Rightarrow> string" where
  "text_of m = (case m of None \<Rightarrow> ''undefined'' | Some s \<Rightarrow> s)"

text \<open>
  What retryWithBackoff does in the end: it returns a value, raises a value, or raises the
  TypeError of the engine, whose message depends on the engine.
\<close>

datatype 'a outcome = Returned 'a | Raised thrown | RaisedTypeError

definition maxRetries :: nat where
  "maxRetries = 3"

definition baseDelay :: nat where
  "baseDelay = 1000"

text \<open>
  \<^verbatim>\<open>error?.statusCode === 429 || (error.message && error.message.includes("429")) ||
  (error.message && error.message.includes("rate limit"))\<close> for a value that is not
  nullish; an empty message is falsy.
\<close>

definition isRateLimit :: "nat option \<Rightarrow> string option \<Rightarrow> bool" where
  "isRateLimit st m =
     (st = Some 429 \<or>
      (case m of None \<Rightarrow> False | Some s \<Rightarrow> s \<noteq> [] \<and> str_includes s ''429'') \<or>
      (case m of None \<Rightarrow> False | Some s \<Rightarrow> s \<noteq> [] \<and> str_includes s ''rate limit''))"

definition rate_limit_exceeded :: thrown where
  "rate_limit_exceeded = Thrown None (Some ''API rate limit exceeded. Please try again later.'')"

definition max_retries_exceeded :: "string option \<Rightarrow> thrown" where
  "max_retries_exceeded m =
     Thrown None (Some (''Maximum retry attempts (3) exceeded: '' @ text_of m))"

text \<open>
  The time waited before a retry is the number
  \<^verbatim>\<open>this.baseDelay * Math.pow(2, retryCount + 1) + Math.random() * 1000\<close>. Its first
  summand is a whole number; the second, the jitter, is a parameter of an open type, and the
  sum is kept as the pair of the two.
\<close>

datatype 'j delay = Backoff nat 'j

text \<open>
  The operation takes no argument and may answer differently each time: \<open>operation k\<close> is
  the outcome of the call made with \<open>retryCount = k\<close>, a raise (\<^term>\<open>Inl\<close>) or a value.
  \<open>jitter k\<close> is the value of \<^verbatim>\<open>Math.random() * 1000\<close> drawn after that call. The
  function returns its outcome together with the delays it has waited, in order. Reading
  \<^verbatim>\<open>error.message\<close> of a nullish value raises a TypeError.
\<close>

function retryWithBackoff ::
  "(nat \<Rightarrow> thrown + 'a) \<Rightarrow> (nat \<Rightarrow> 'j) \<Rightarrow> nat \<Rightarrow> 'a outcome \<times> 'j delay list" where
  "retryWithBackoff operation jitter retryCount =
     (case operation retryCount of
        Inr v \<Rightarrow> (Returned v, [])
      | Inl Nullish \<Rightarrow> (RaisedTypeError, [])
      | Inl (Thrown st m) \<Rightarrow>
          if isRateLimit st m \<and> retryCount < maxRetries then
            (case retryWithBackoff operation jitter (retryCount + 1) of
               (res, delays) \<Rightarrow>
                 (res, Backoff (baseDelay * 2 ^ (retryCount + 1)) (jitter retryCount) # delays))
          else if retryCount \<ge> maxRetries then
            (if isRateLimit st m then (Raised rate_limit_exceeded, [])
             else (Raised (max_retries_exceeded m), []))
          else (Raised (Thrown st m), []))"
  by pat_completeness auto
termination
  by (relation "measure (\<lambda>(operation, jitter, retryCount). maxRetries - retryCount)") auto

declare retryWithBackoff.simps [simp del]

text \<open>\<^verbatim>\<open>`${response.status}`\<close>: a natural number in decimal.\<close>

function string_of_nat :: "nat \<Rightarrow> string" where
  "string_of_nat n =
     (if n < 10 then [''0123456789'' ! n]
      else string_of_nat (n div 10) @ [''0123456789'' ! (n mod 10)])"
  by pat_completeness auto
termination
  by (relation "measure id") auto

declare string_of_nat.simps [simp del]

text \<open>
  What one call of the HTTP API can do inside the \<^verbatim>\<open>try\<close> of generateMistralResponse:
  raise a value that is not nullish (the network, a reply without choices), answer with a
  status that is not ok and the JSON text of its error body (\<open>{}\<close> when the body is not
  JSON), or answer with the content.
\<close>

datatype fetch_outcome =
    Threw "nat option" "string option"
  | HttpError nat string
  | HttpOk string

definition mistral_try :: "fetch_outcome \<Rightarrow> thrown + string" where
  "mistral_try fo =
     (case fo of
        Threw st m \<Rightarrow> Inl (Thrown st m)
      | HttpError st errorData \<Rightarrow>
          if st = 429 then Inl (Thrown (Some 429) (Some ''Requests rate limit exceeded''))
          else Inl (Thrown None
                 (Some (''Mistral API error: '' @ string_of_nat st @ '' '' @ errorData)))
      | HttpOk content \<Rightarrow> Inr content)"

text \<open>The \<^verbatim>\<open>catch\<close> of generateMistralResponse: a rate-limit error is raised anew
  with status 429, any other error is wrapped.\<close>

definition mistral_attempt :: "fetch_outcome \<Rightarrow> thrown + string" where
  "mistral_attempt fo =
     (case mistral_try fo of
        Inr content \<Rightarrow> Inr content
      | Inl Nullish \<Rightarrow> Inl Nullish
      | Inl (Thrown st m) \<Rightarrow>
          if st = Some 429 \<or>
             (case m of None \<Rightarrow> False | Some s \<Rightarrow> s \<noteq> [] \<and> str_includes s ''rate limit'')
          then Inl (Thrown (Some 429) (Some ''Rate limit exceeded''))
          else Inl (Thrown None (Some (''AI Service Error: '' @ text_of m))))"

definition mistral_operation :: "(nat \<Rightarrow> fetch_outcome) \<Rightarrow> nat \<Rightarrow> thrown + string" where
  "mistral_operation fetches k = mistral_attempt (fetches k)"

definition generateMistralResponse ::
  "(nat \<Rightarrow> fetch_outcome) \<Rightarrow> (nat \<Rightarrow> 'j) \<Rightarrow> string outcome \<times> 'j delay list" where
  "generateMistralResponse fetches jitter =
     retryWithBackoff (mistral_operation fetches) jitter 0"

text \<open>
  The rate-limit signal as the specification words it: status 429 or a message that
  contains "rate limit".
\<close>

definition rate_limit_signal_spec :: "thrown \<Rightarrow> bool" where
  "rate_limit_signal_spec t =
     (case t of
        Nullish \<Rightarrow> False
      | Thrown st m \<Rightarrow>
          st = Some 429 \<or> (case m of None \<Rightarrow> False | Some s \<Rightarrow> str_includes s ''rate limit''))"

text \<open>The call with \<open>retryCount = k\<close> raised a rate-limit error.\<close>

definition rate_limited_at :: "(nat \<Rightarrow> thrown + 'a) \<Rightarrow> nat \<Rightarrow> bool" where
  "rate_limited_at operation k =
     (case operation k of Inl (Thrown st m) \<Rightarrow> isRateLimit st m | _ \<Rightarrow> False)"

text \<open>The delay before retry number \<open>k + 1\<close>: 2000, 4000, 8000 milliseconds plus the
  jitter.\<close>

definition backoff_delay :: "(nat \<Rightarrow> 'j) \<Rightarrow> nat \<Rightarrow> 'j delay" where
  "backoff_delay jitter k = Backoff (1000 * 2 ^ (k + 1)) (jitter k)"

text \<open>What the last call, made after \<open>n\<close> retries, leads to.\<close>

definition final_outcome :: "(nat \<Rightarrow> thrown + 'a) \<Rightarrow> nat \<Rightarrow> 'a outcome" where
  "final_outcome operation n =
     (case operation n of
        Inr v \<Rightarrow> Returned v
      | Inl Nullish \<Rightarrow> RaisedTypeError
      | Inl (Thrown st m) \<Rightarrow>
          if isRateLimit st m then Raised rate_limit_exceeded
          else if n < 3 then Raised (Thrown st m)
          else Raised (max_retries_exceeded m))"

text \<open>For the examples: an API that always answers 429, one that always answers 500 with
  the JSON body \<open>[429]\<close>, one that always answers 500 with an empty object, one that answers
  at the third call, and a jitter of half a second.\<close>

definition always_429 :: "nat \<Rightarrow> fetch_outcome" where
  "always_429 k = HttpError 429 ''{}''"

definition always_500_429 :: "nat \<Rightarrow> fetch_outcome" where
  "always_500_429 k = HttpError 500 ''[429]''"

definition always_500 :: "nat \<Rightarrow> fetch_outcome" where
  "always_500 k = HttpError 500 ''{}''"

definition third_time :: "nat \<Rightarrow> fetch_outcome" where
  "third_time k = (if k < 2 then HttpError 429 ''{}'' else HttpOk ''SELECT 1'')"

definition half_second :: "nat \<Rightarrow> real" where
  "half_second k = 500"

section \<open>Table relevance: identifyRelevantTablesParallel\<close>

text \<open>
  The schema object is the one that \<^verbatim>\<open>SchemaService.getAllTableSchemas\<close> builds: a plain
  object (\<^verbatim>\<open>const schemaMap = {}\<close>) with one own property for each table, whose value is
  an object \<^verbatim>\<open>{columns, constraints}\<close>. It is given here by \<^verbatim>\<open>Object.keys(schemas)\<close>,
  the list of its own keys in their order; a table named \<^verbatim>\<open>__proto__\<close> is outside the
  model. Reading \<^verbatim>\<open>schemas[name]\<close> finds an own property or, failing that, a property
  of \<^verbatim>\<open>Object.prototype\<close>; each of these values is truthy.
\<close>

definition object_prototype_names :: "string list" where
  "object_prototype_names =
     [''constructor'', ''__defineGetter__'', ''__defineSetter__'', ''hasOwnProperty'',
      ''__lookupGetter__'', ''__lookupSetter__'', ''isPrototypeOf'', ''propertyIsEnumerable'',
      ''toString'', ''valueOf'', ''__proto__'', ''toLocaleString'']"

text \<open>Whether \<^verbatim>\<open>schemas[name]\<close> is truthy.\<close>

definition schema_truthy :: "string list \<Rightarrow> string \<Rightarrow> bool" where
  "schema_truthy schemas name = (name \<in> set schemas \<or> name \<in> set object_prototype_names)"

text \<open>
  What a call of \<^verbatim>\<open>generateMistralResponse\<close> gives: the content, a string, or a failure
  (it raises, or the content is not a string, so that calling \<^verbatim>\<open>replace\<close> or
  \<^verbatim>\<open>match\<close> on it raises).
\<close>

datatype llm_response = Content string | Failed

text \<open>
  \<^verbatim>\<open>s.replace(/```.*?\n?/g, "")\<close>: the lazy \<^verbatim>\<open>.*?\<close> is followed only by an optional
  part, so it takes nothing, and each match is a fence together with a line feed right
  after it.
\<close>

function strip_markdown :: "string \<Rightarrow> string" where
  "strip_markdown s =
     (if s = [] then []
      else if prefix ''```'' s then
        (let r = drop 3 s in
         strip_markdown (if prefix [CHR 0x0A] r then drop 1 r else r))
      else hd s # strip_markdown (tl s))"
  by pat_completeness auto
termination
  by (relation "measure length") (auto simp: prefix_def)

declare strip_markdown.simps [simp del]

text \<open>\<^verbatim>\<open>s.split(",")\<close>: the empty string gives one empty piece.\<close>

fun split_comma :: "string \<Rightarrow> string list" where
  "split_comma [] = [[]]"
| "split_comma (c # cs) =
     (if c = CHR '','' then [] # split_comma cs
      else (case split_comma cs of p # ps \<Rightarrow> (c # p) # ps | [] \<Rightarrow> [[c]]))"

text \<open>
  \<^verbatim>\<open>SqlGenerationService.identifyRelevantTables\<close>; \<open>None\<close> when the promise is
  rejected. The prompt sent to the model does not matter here, its answer is the parameter.
\<close>

definition identifyRelevantTables :: "string list \<Rightarrow> llm_response \<Rightarrow> string list option" where
  "identifyRelevantTables schemas response =
     (case response of
        Failed \<Rightarrow> None
      | Content relevantTablesStr \<Rightarrow>
          Some (filter (\<lambda>table. table \<noteq> [] \<and> schema_truthy schemas table)
                 (map (\<lambda>table. toLowerCase (trim table))
                    (split_comma (strip_markdown relevantTablesStr)))))"

text \<open>
  \<^verbatim>\<open>response.match(/\[[\s\S]*\]/)\<close>: from the first opening bracket to the last closing
  bracket after it, when there is one.
\<close>

definition match_array :: "string \<Rightarrow> string option" where
  "match_array s =
     (let rest = dropWhile (\<lambda>c. c \<noteq> CHR ''['') s in
      if rest = [] then None
      else
        (let body = rev (dropWhile (\<lambda>c. c \<noteq> CHR '']'') (rev (tl rest))) in
         if body = [] then None else Some (CHR ''['' # body)))"

text \<open>
  \<^verbatim>\<open>identifyTablesWithAI\<close>, which catches every error. \<open>json_parse\<close> stands for
  \<^verbatim>\<open>JSON.parse\<close> on a text that starts with a bracket: \<open>None\<close> when it raises, else the
  array, each element given when it is a string. Only a string can be among the table
  names.
\<close>

definition identifyTablesWithAI ::
  "(string \<Rightarrow> string option list option) \<Rightarrow> string list \<Rightarrow> llm_response \<Rightarrow> string list" where
  "identifyTablesWithAI json_parse schemas response =
     (case response of
        Failed \<Rightarrow> []
      | Content text \<Rightarrow>
          (case match_array text of
             None \<Rightarrow> []
           | Some m \<Rightarrow>
               (case json_parse m of
                  None \<Rightarrow> []
                | Some parsed \<Rightarrow>
                    concat (map (\<lambda>table. case table of
                                   Some name \<Rightarrow> if name \<in> set schemas then [name] else []
                                 | None \<Rightarrow> []) parsed))))"

text \<open>\<^verbatim>\<open>s.replace('_', ' ')\<close>: the first underscore only.\<close>

definition replace_underscore :: "string \<Rightarrow> string" where
  "replace_underscore s =
     takeWhile (\<lambda>c. c \<noteq> CHR ''_'') s @
     (case dropWhile (\<lambda>c. c \<noteq> CHR ''_'') s of [] \<Rightarrow> [] | c # r \<Rightarrow> CHR '' '' # r)"

definition extractTableNamesFromPrompt :: "string \<Rightarrow> string list \<Rightarrow> string list" where
  "extractTableNamesFromPrompt prompt schemas =
     (let lowerPrompt = toLowerCase prompt in
      filter (\<lambda>table. str_includes lowerPrompt (toLowerCase table) \<or>
                       str_includes lowerPrompt (replace_underscore (toLowerCase table)))
        schemas)"

text \<open>
  \<^verbatim>\<open>promptAnalysis?.dataRequirements?.relevantTables\<close>, where the analysis comes from
  \<^verbatim>\<open>JSON.parse\<close> or is the fallback literal: absent or without a length greater than 0;
  a string or an object with such a length, which has no \<^verbatim>\<open>map\<close>; or an array, each
  element given when it is a string.
\<close>

datatype relevant_tables = Absent | NotAnArray | TableArray "string option list"

text \<open>\<^verbatim>\<open>Object.keys(schemas)[0]\<close>, when it is truthy.\<close>

definition first_table :: "string list \<Rightarrow> string option" where
  "first_table schemas = (case schemas of [] \<Rightarrow> None | t # ts \<Rightarrow> if t \<noteq> [] then Some t else None)"

text \<open>The \<^verbatim>\<open>try\<close> block of identifyRelevantTablesParallel; \<open>None\<close> when it raises.\<close>

definition identify_try ::
  "(string \<Rightarrow> string option list option) \<Rightarrow> string \<Rightarrow> string list \<Rightarrow> relevant_tables \<Rightarrow>
   llm_response \<Rightarrow> llm_response \<Rightarrow> string list option" where
  "identify_try json_parse prompt schemas relevant response1 response2 =
     (case (case relevant of
              Absent \<Rightarrow> Some []
            | NotAnArray \<Rightarrow> None
            | TableArray ts \<Rightarrow>
                if length ts > 0 then
                  Some (filter (schema_truthy schemas)
                         (map (\<lambda>table. case table of Some s \<Rightarrow> toLowerCase s | None \<Rightarrow> []) ts))
                else Some []) of
        None \<Rightarrow> None
      | Some suggestedTables \<Rightarrow>
          if length suggestedTables > 0 then Some suggestedTables
          else
            (case identifyRelevantTables schemas response1 of
               None \<Rightarrow> None
             | Some result1 \<Rightarrow>
                 (let allTables =
                        js_set (result1 @
                                identifyTablesWithAI json_parse schemas response2 @
                                extractTableNamesFromPrompt prompt schemas) in
                  if length allTables > 0 then Some allTables
                  else (case first_table schemas of
                          Some defaultTable \<Rightarrow> Some [defaultTable]
                        | None \<Rightarrow> None))))"

definition identifyRelevantTablesParallel ::
  "(string \<Rightarrow> string option list option) \<Rightarrow> string \<Rightarrow> string list \<Rightarrow> relevant_tables \<Rightarrow>
   llm_response \<Rightarrow> llm_response \<Rightarrow> string list" where
  "identifyRelevantTablesParallel json_parse prompt schemas relevant response1 response2 =
     (case identify_try json_parse prompt schemas relevant response1 response2 of
        Some found \<Rightarrow> found
      | None \<Rightarrow> (case first_table schemas of Some fallbackTable \<Rightarrow> [fallbackTable] | None \<Rightarrow> []))"

text \<open>For the examples: \<^verbatim>\<open>JSON.parse\<close> on the text \<open>[]\<close>.\<close>

definition parse_empty_array :: "string \<Rightarrow> string option list option" where
  "parse_empty_array s = (if s = ''[]'' then Some [] else None)"

section \<open>ReportService: executeSqlWithFallback\<close>

text \<open>
  What a call of \<^verbatim>\<open>pool.query\<close> can do: be rejected with a value; resolve with
  \<^verbatim>\<open>null\<close> or \<^verbatim>\<open>undefined\<close>, so that reading \<^verbatim>\<open>result.rows\<close> raises; resolve with an
  object whose \<^verbatim>\<open>rows\<close> is \<^verbatim>\<open>undefined\<close> (the driver answers a text of several
  statements with an array of results, which has no \<^verbatim>\<open>rows\<close>); or resolve with an array
  of rows. A call that never settles, and a \<^verbatim>\<open>rows\<close> that is neither an array nor
  \<^verbatim>\<open>undefined\<close>, are outside the model. The database is a state of an open type: a
  query returns its outcome and the next state, so that the same text can be answered
  differently each time.
\<close>

datatype 'r query_outcome = Rejected thrown | NoResult | NoRowsField | ResultRows "'r list"

type_synonym ('s, 'r) pool = "'s \<Rightarrow> string \<Rightarrow> 'r query_outcome \<times> 's"

text \<open>
  The object that executeSqlWithFallback returns. The fields are named \<open>qr_data\<close> for
  \<^verbatim>\<open>data\<close> and so on; \<open>qr_error\<close> and \<open>qr_message\<close> are \<open>None\<close> when the property is absent
  or \<^verbatim>\<open>undefined\<close>, and \<open>qr_fallbackUsed\<close> is the truthiness of \<^verbatim>\<open>fallbackUsed\<close>.
\<close>

datatype 'r data_field = DataUndefined | DataRows "'r list"

record ('r, 'd) query_result =
  qr_data :: "'r data_field"
  qr_relatedData :: "'d option"
  qr_sql :: string
  qr_error :: "string option"
  qr_fallbackUsed :: bool
  qr_message :: "string option"

text \<open>
  \<^verbatim>\<open>formatDatesInData\<close> on an array: a new array with each row formatted, where the
  formatting of one row, which does not raise, is a parameter. Anything that is not an
  array is returned as it is.
\<close>

definition formatDatesInData :: "('r \<Rightarrow> 'r) \<Rightarrow> 'r list \<Rightarrow> 'r list" where
  "formatDatesInData format_row rows = map format_row rows"

text \<open>
  \<^verbatim>\<open>executeSqlNonBlocking\<close>: the promise is rejected with what the query raised, or with
  the TypeError of reading \<^verbatim>\<open>rows\<close> of a nullish result, whose message \<open>type_error\<close>
  depends on the engine.
\<close>

definition executeSqlNonBlocking ::
  "('s, 'r) pool \<Rightarrow> ('r \<Rightarrow> 'r) \<Rightarrow> string \<Rightarrow> string \<Rightarrow> 's \<Rightarrow>
   (thrown + ('r, 'd) query_result) \<times> 's" where
  "executeSqlNonBlocking pool format_row type_error sql s =
     (case pool s sql of
        (Rejected e, s1) \<Rightarrow> (Inl e, s1)
      | (NoResult, s1) \<Rightarrow> (Inl (Thrown None (Some type_error)), s1)
      | (NoRowsField, s1) \<Rightarrow>
          (Inr \<lparr>qr_data = DataUndefined, qr_relatedData = None, qr_sql = sql,
                qr_error = None, qr_fallbackUsed = False, qr_message = None\<rparr>, s1)
      | (ResultRows rows, s1) \<Rightarrow>
          (Inr \<lparr>qr_data = DataRows (formatDatesInData format_row rows), qr_relatedData = None,
                qr_sql = sql, qr_error = None, qr_fallbackUsed = False, qr_message = None\<rparr>,
           s1))"

text \<open>
  The names that \<^verbatim>\<open>sql.match(/from\s+([a-z_][a-z0-9_]*)/gi)\<close>, followed by
  \<^verbatim>\<open>match.replace(/from\s+/i, "").trim()\<close> on each match, gives (and the same for
  \<open>join\<close>): wherever the keyword is followed by white space and an identifier, that
  identifier; the search goes on after the identifier.
\<close>

definition is_ident_start :: "char \<Rightarrow> bool" where
  "is_ident_start c = (c \<in> set ''abcdefghijklmnopqrstuvwxyzABCDEFGHIJKLMNOPQRSTUVWXYZ_'')"

function names_after :: "string \<Rightarrow> string \<Rightarrow> string list" where
  "names_after kw s =
     (if s = [] then []
      else if starts_with_ci kw s then
        (let r = dropWhile is_space (drop (length kw) s) in
         if length r < length (drop (length kw) s) \<and> r \<noteq> [] \<and> is_ident_start (hd r) then
           (hd r # takeWhile is_word_char (tl r)) #
             names_after kw (dropWhile is_word_char (tl r))
         else names_after kw (tl s))
      else names_after kw (tl s))"
  by pat_completeness auto
termination
proof (relation "measure (\<lambda>(kw, s). length s)", goal_cases)
  case 1
  show ?case by simp
next
  case (2 kw s r)
  have "length (dropWhile is_word_char (tl r)) \<le> length (tl r)"
    by (rule length_dropWhile_le)
  moreover have "length (tl r) < length r" using 2 by (cases r) auto
  moreover have "length r \<le> length (drop (length kw) s)"
    unfolding 2 by (rule length_dropWhile_le)
  moreover have "length (drop (length kw) s) \<le> length s" by simp
  ultimately show ?case by simp
next
  case (3 kw s r)
  then show ?case by (cases s) auto
next
  case (4 kw s)
  then show ?case by (cases s) auto
qed

declare names_after.simps [simp del]

definition extract_tables :: "string \<Rightarrow> string list" where
  "extract_tables sql = names_after ''from'' sql @ names_after ''join'' sql"

text \<open>
  The loop over \<^verbatim>\<open>tables[1]\<close>, \<^verbatim>\<open>tables[2]\<close>, ...: each table is queried, an error is
  swallowed, and otherwise \<^verbatim>\<open>relatedData[table] = tableResult.rows\<close> is stored. The
  result says whether \<^verbatim>\<open>Object.keys(relatedData).length > 0\<close> afterwards; an assignment
  to \<^verbatim>\<open>__proto__\<close> creates no key.
\<close>

fun fetch_related :: "('s, 'r) pool \<Rightarrow> string list \<Rightarrow> 's \<Rightarrow> bool \<times> 's" where
  "fetch_related pool [] s = (False, s)"
| "fetch_related pool (t # ts) s =
     (case pool s (''SELECT * FROM '' @ t @ '' LIMIT 1000'') of
        (out, s1) \<Rightarrow>
          (let stored = (case out of
                           Rejected e \<Rightarrow> False
                         | NoResult \<Rightarrow> False
                         | NoRowsField \<Rightarrow> t \<noteq> ''__proto__''
                         | ResultRows rows \<Rightarrow> t \<noteq> ''__proto__'') in
           case fetch_related pool ts s1 of (later, s2) \<Rightarrow> (stored \<or> later, s2)))"

text \<open>
  The fallback on the primary table, the body of the inner \<^verbatim>\<open>try\<close>: \<open>None\<close> when it
  raises or ends without a \<^verbatim>\<open>return\<close>. \<^verbatim>\<open>performRelatedQueries\<close> catches its own errors
  and returns the rows it was given as \<^verbatim>\<open>primaryData\<close>; what it stores as
  \<^verbatim>\<open>relatedData\<close>, from its own queries, is the parameter \<open>related\<close>. Reading
  \<^verbatim>\<open>minimalSchema.tables\<close> raises when the schema is nullish (\<open>None\<close>). The messages
  passed to \<^verbatim>\<open>sendUpdate\<close>, which is taken not to raise, are collected.
\<close>

definition primary_fallback ::
  "('s, 'r) pool \<Rightarrow> ('s \<Rightarrow> 'r list \<Rightarrow> 'm \<Rightarrow> 'd \<times> 's) \<Rightarrow> ('r \<Rightarrow> 'r) \<Rightarrow> string list \<Rightarrow>
   'm option \<Rightarrow> 's \<Rightarrow> ('r, 'd) query_result option \<times> 's \<times> string list" where
  "primary_fallback pool related format_row tbls minimalSchema s =
     (let primaryTable = hd tbls;
          simpleSql = ''SELECT * FROM '' @ primaryTable @ '' LIMIT 1000'';
          ev1 = [''Querying primary table: '' @ primaryTable] in
      case pool s simpleSql of
        (ResultRows rows, s1) \<Rightarrow>
          if length rows > 0 then
            (let plain = \<lparr>qr_data = DataRows (formatDatesInData format_row rows),
                           qr_relatedData = None, qr_sql = simpleSql, qr_error = None,
                           qr_fallbackUsed = True, qr_message = None\<rparr> in
             if length tbls > 1 then
               (case fetch_related pool (tl tbls) s1 of
                  (has_keys, s2) \<Rightarrow>
                    if has_keys then
                      (case minimalSchema of
                         None \<Rightarrow>
                           (None, s2, ev1 @ [''Fetching related data separately...'',
                                             ''Performing in-memory data processing...''])
                       | Some schema \<Rightarrow>
                           (case related s2 rows schema of
                              (relatedData, s3) \<Rightarrow>
                                (Some \<lparr>qr_data = DataRows (formatDatesInData format_row rows),
                                       qr_relatedData = Some relatedData, qr_sql = simpleSql,
                                       qr_error = None, qr_fallbackUsed = True,
                                       qr_message = None\<rparr>,
                                 s3, ev1 @ [''Fetching related data separately...'',
                                            ''Performing in-memory data processing...''])))
                    else (Some plain, s2, ev1 @ [''Fetching related data separately...'']))
             else (Some plain, s1, ev1))
          else (None, s1, ev1)
      | (other, s1) \<Rightarrow> (None, s1, ev1))"

text \<open>The text of the query for the table names, as the template literal has it.\<close>

definition tablesQuery :: string where
  "tablesQuery =
     ''\<newline>          SELECT table_name \<newline>          FROM information_schema.tables '' @
     ''\<newline>          WHERE table_schema = '' @ [CHR 0x27] @ ''public'' @ [CHR 0x27] @
     ''\<newline>          LIMIT 10\<newline>        ''"

text \<open>
  The loop over the rows of table names: the first table that gives rows ends the search.
  \<open>table_name\<close> gives the text of \<^verbatim>\<open>tableRow.table_name\<close> inside the template literal,
  and \<open>None\<close> when the row is nullish, so that reading it raises; every error is swallowed.
\<close>

fun sample_tables ::
  "('s, 'r) pool \<Rightarrow> ('r \<Rightarrow> 'r) \<Rightarrow> ('r \<Rightarrow> string option) \<Rightarrow> 'r list \<Rightarrow> 's \<Rightarrow>
   ('r, 'd) query_result option \<times> 's" where
  "sample_tables pool format_row table_name [] s = (None, s)"
| "sample_tables pool format_row table_name (tableRow # rest) s =
     (case table_name tableRow of
        None \<Rightarrow> sample_tables pool format_row table_name rest s
      | Some tableName \<Rightarrow>
          (let sampleSql = ''SELECT * FROM '' @ tableName @ '' LIMIT 100'' in
           case pool s sampleSql of
             (ResultRows rows, s1) \<Rightarrow>
               if length rows > 0 then
                 (Some \<lparr>qr_data = DataRows (formatDatesInData format_row rows),
                        qr_relatedData = None, qr_sql = sampleSql, qr_error = None,
                        qr_fallbackUsed = True,
                        qr_message = Some (''Could not execute original query. '' @
                          ''Showing sample data from '' @ tableName @ '' instead.'')\<rparr>, s1)
               else sample_tables pool format_row table_name rest s1
           | (other, s1) \<Rightarrow> sample_tables pool format_row table_name rest s1))"

text \<open>The last resort, the body of the last \<^verbatim>\<open>try\<close>.\<close>

definition last_resort ::
  "('s, 'r) pool \<Rightarrow> ('r \<Rightarrow> 'r) \<Rightarrow> ('r \<Rightarrow> string option) \<Rightarrow> 's \<Rightarrow>
   ('r, 'd) query_result option \<times> 's" where
  "last_resort pool format_row table_name s =
     (case pool s tablesQuery of
        (ResultRows tableRows, s1) \<Rightarrow> sample_tables pool format_row table_name tableRows s1
      | (other, s1) \<Rightarrow> (None, s1))"

text \<open>
  The object returned when all else fails. Reading \<^verbatim>\<open>error.message\<close> raises a TypeError
  when the first query was rejected with \<^verbatim>\<open>null\<close> or \<^verbatim>\<open>undefined\<close>.
\<close>

definition no_data :: "string \<Rightarrow> thrown \<Rightarrow> ('r, 'd) query_result outcome" where
  "no_data sql error =
     (case error of
        Nullish \<Rightarrow> RaisedTypeError
      | Thrown st m \<Rightarrow>
          Returned \<lparr>qr_data = DataRows [], qr_relatedData = None, qr_sql = sql, qr_error = m,
                    qr_fallbackUsed = True,
                    qr_message = Some ''Could not retrieve data. Please try a different query.''\<rparr>)"

text \<open>
  \<^verbatim>\<open>executeSqlWithFallback(sql, userPrompt, minimalSchema, sendUpdate)\<close>: the outcome, the
  state of the database afterwards and the messages sent, in order.
\<close>

definition executeSqlWithFallback ::
  "('s, 'r) pool \<Rightarrow> ('s \<Rightarrow> 'r list \<Rightarrow> 'm \<Rightarrow> 'd \<times> 's) \<Rightarrow> ('r \<Rightarrow> 'r) \<Rightarrow> ('r \<Rightarrow> string option) \<Rightarrow>
   string \<Rightarrow> string \<Rightarrow> 'm option \<Rightarrow> 's \<Rightarrow>
   ('r, 'd) query_result outcome \<times> 's \<times> string list" where
  "executeSqlWithFallback pool related format_row table_name type_error sql minimalSchema s =
     (case executeSqlNonBlocking pool format_row type_error sql s of
        (Inr res, s1) \<Rightarrow> (Returned res, s1, [''Executing SQL query...''])
      | (Inl error, s1) \<Rightarrow>
          (let ev0 = [''Executing SQL query...'',
                      ''Initial query failed. Attempting simplified query...''];
               tbls = extract_tables sql in
           case (if length tbls > 0
                 then primary_fallback pool related format_row tbls minimalSchema s1
                 else (None, s1, [])) of
             (Some res, s2, ev1) \<Rightarrow> (Returned res, s2, ev0 @ ev1)
           | (None, s2, ev1) \<Rightarrow>
               (case last_resort pool format_row table_name s2 of
                  (Some res, s3) \<Rightarrow>
                    (Returned res, s3, ev0 @ ev1 @ [''Attempting to retrieve sample data...''])
                | (None, s3) \<Rightarrow>
                    (no_data sql error, s3,
                     ev0 @ ev1 @ [''Attempting to retrieve sample data...'']))))"

text \<open>
  For the examples: a database that rejects every query with an \<^verbatim>\<open>Error\<close>, one that
  rejects every query with \<^verbatim>\<open>null\<close>, one that answers every query without rows field,
  and one that knows the table \<open>users\<close> only; no related data; rows are numbers.
\<close>

definition always_throws :: "(unit, nat) pool" where
  "always_throws s q = (Rejected (Thrown None (Some ''connection refused'')), s)"

definition always_throws_null :: "(unit, nat) pool" where
  "always_throws_null s q = (Rejected Nullish, s)"

definition always_batch :: "(unit, nat) pool" where
  "always_batch s q = (NoRowsField, s)"

definition users_only :: "(unit, nat) pool" where
  "users_only s q =
     (if q = ''SELECT * FROM users LIMIT 1000'' then (ResultRows [1, 2, 3], s)
      else (Rejected (Thrown None (Some ''syntax error'')), s))"

definition no_related :: "unit \<Rightarrow> nat list \<Rightarrow> unit \<Rightarrow> unit \<times> unit" where
  "no_related s rows schema = ((), s)"

definition no_table_name :: "nat \<Rightarrow> string option" where
  "no_table_name r = Some ''undefined''"

section \<open>The cleaned SQL text and its first keyword\<close>




















section \<open>Similar queries: at most three, best first, all above the threshold\<close>

lemma set_map_filter: "set (List.map_filter f xs) = {y. \<exists>x\<in>set xs. f x = Some y}"
  by (induction xs) (auto simp: List.map_filter_def)

lemma score_entry_gt: "score_entry ws e = Some s \<Longrightarrow> similarity s > 3 / 10"
  by (auto simp: score_entry_def kb_entry.extend_def split: option.splits if_splits)

text \<open>
  Claim C10. For every knowledge base and every prompt, findSimilarQueries returns at most
  three entries, in non-increasing order of similarity, each with a similarity strictly
  above 0.3.
\<close>

theorem findSimilarQueries_top3:
  "length (findSimilarQueries kb prompt) \<le> 3 \<and>
   sorted_wrt (\<lambda>a b. similarity a \<ge> similarity b) (findSimilarQueries kb prompt) \<and>
   (\<forall>e\<in>set (findSimilarQueries kb prompt). similarity e > 3 / 10)"
proof -
  let ?scored = "List.map_filter (score_entry (prompt_words prompt)) kb"
  let ?sorted = "sort_key (\<lambda>e. - similarity e) ?scored"
  have r: "findSimilarQueries kb prompt = take 3 ?sorted"
    by (simp add: findSimilarQueries_def)
  have "sorted (map (\<lambda>e. - similarity e) ?sorted)" by (rule sorted_sort_key)
  then have "sorted_wrt (\<lambda>a b. similarity a \<ge> similarity b) ?sorted"
    by (simp add: sorted_wrt_map)
  then have s: "sorted_wrt (\<lambda>a b. similarity a \<ge> similarity b) (take 3 ?sorted)"
    by (rule sorted_wrt_take)
  have "\<forall>e\<in>set ?sorted. similarity e > 3 / 10"
    by (auto simp: set_map_filter dest: score_entry_gt)
  then have g: "\<forall>e\<in>set (take 3 ?sorted). similarity e > 3 / 10"
    by (meson in_set_takeD)
  show ?thesis unfolding r using s g by simp
qed

text \<open>The theorem of C10 on the example knowledge base, where two entries are found.\<close>

theorem findSimilarQueries_top3_witness:
  "map similarity (findSimilarQueries kb_example ''list all users please'') = [3 / 4, 1 / 2] \<and>
   3 / 10 < similarity (hd (findSimilarQueries kb_example ''list all users please''))"
proof -
  have v: "map similarity (findSimilarQueries kb_example ''list all users please'') = [3 / 4, 1 / 2]"
    by code_simp
  then have "hd (findSimilarQueries kb_example ''list all users please'')
      \<in> set (findSimilarQueries kb_example ''list all users please'')"
    by (intro hd_in_set) auto
  with findSimilarQueries_top3 [of kb_example "''list all users please''"] v
  show ?thesis by blast
qed

section \<open>detectOutliers below four data points\<close>

text \<open>With six prices the far one is outside the bounds: the function does find outliers.\<close>

lemma detectOutliers_six_prices:
  "outliers (detectOutliers parseFloat_num six_prices ''price'') = [[(''price'', JNum 500)]]"
  by (simp add: detectOutliers_def six_prices_def numeric_values_def List.map_filter_def
      get_field_def Let_def)

lemma few_numbers_values:
  "numeric_values parseFloat_num few_numbers ''price'' = [10, 12, 500]"
  by (simp add: few_numbers_def numeric_values_def List.map_filter_def get_field_def)

text \<open>
  Claim C7. When the data has fewer than four rows, or the chosen field has fewer than four
  numeric values, detectOutliers returns an empty list of outliers and the data itself,
  unchanged, as normalData (and neither bounds nor quartiles).
\<close>

theorem detectOutliers_few:
  "length data < 4 \<or> length (numeric_values parseFloat data field) < 4 \<Longrightarrow>
   detectOutliers parseFloat data field =
     \<lparr>outliers = [], normalData = data, bounds = None, quartiles = None\<rparr>"
  by (auto simp: detectOutliers_def Let_def)

text \<open>The theorem of C7 at five rows with three numbers, and at the empty data.\<close>

theorem detectOutliers_few_witness:
  "length (numeric_values parseFloat_num few_numbers ''price'') < 4 \<and>
   detectOutliers parseFloat_num few_numbers ''price'' =
     \<lparr>outliers = [], normalData = few_numbers, bounds = None, quartiles = None\<rparr> \<and>
   length ([] :: row list) < 4 \<and>
   detectOutliers parseFloat_num [] ''price'' =
     \<lparr>outliers = [], normalData = [], bounds = None, quartiles = None\<rparr>"
  using detectOutliers_few [of few_numbers parseFloat_num "''price''"]
        detectOutliers_few [of "[]" parseFloat_num "''price''"] few_numbers_values
  by simp

section \<open>detectTrend: classes of the slope and the percent change\<close>

lemma sumXY_zip:
  "map (\<lambda>i. f (map g [0..<length vs] ! i) (vs ! i)) [0..<length vs] =
   map (\<lambda>(x, v). f x v) (zip (map g [0..<length vs]) vs)"
  by (rule nth_equalityI) simp_all

lemma exact_abs_laws: "abs_laws exact_arith"
  by (auto simp: abs_laws_def exact_arith_def split: option.splits)

lemma regression_slope_formula:
  "regression_slope M vs =
     d_div M
       (d_sub M
          (d_mul M (d_num M (length vs))
             (d_sum M (map (\<lambda>(x, v). d_mul M x v) (zip (map (d_num M) [0..<length vs]) vs))))
          (d_mul M (d_sum M (map (d_num M) [0..<length vs])) (d_sum M vs)))
       (d_sub M
          (d_mul M (d_num M (length vs))
             (d_sum M (map (\<lambda>x. d_mul M x x) (map (d_num M) [0..<length vs]))))
          (d_mul M (d_sum M (map (d_num M) [0..<length vs]))
             (d_sum M (map (d_num M) [0..<length vs]))))"
  unfolding regression_slope_def Let_def sumXY_zip ..

lemma percent_change_cases:
  "percent_change M a b =
     Inr (if d_is_zero M a then (if d_is_zero M b then d_0 M else d_100 M)
          else d_mul M (d_div M (d_sub M b a) a) (d_100 M))"
  by (simp add: percent_change_def checked_div_def)

lemma classify_slope_cases:
  "(classify_slope M s = ''stable'' \<longleftrightarrow> d_lt M (d_abs M s) (d_0_01 M)) \<and>
   (\<not> d_lt M (d_abs M s) (d_0_01 M) \<and> d_lt M (d_0 M) s \<longrightarrow>
      classify_slope M s = (if d_lt M (d_0_1 M) s then ''strong increase'' else ''slight increase'')) \<and>
   (\<not> d_lt M (d_abs M s) (d_0_01 M) \<and> \<not> d_lt M (d_0 M) s \<longrightarrow>
      classify_slope M s = (if d_lt M s (d_neg_0_1 M) then ''strong decrease'' else ''slight decrease'')) \<and>
   (abs_laws M \<longrightarrow>
      (classify_slope M s = ''strong increase'' \<or> classify_slope M s = ''strong decrease'' \<longleftrightarrow>
         \<not> d_lt M (d_abs M s) (d_0_01 M) \<and> d_lt M (d_0_1 M) (d_abs M s)))"
proof -
  have a: "classify_slope M s = ''stable'' \<longleftrightarrow> d_lt M (d_abs M s) (d_0_01 M)"
    by (simp add: classify_slope_def)
  have b: "\<not> d_lt M (d_abs M s) (d_0_01 M) \<and> d_lt M (d_0 M) s \<longrightarrow>
      classify_slope M s = (if d_lt M (d_0_1 M) s then ''strong increase'' else ''slight increase'')"
    by (simp add: classify_slope_def)
  have c: "\<not> d_lt M (d_abs M s) (d_0_01 M) \<and> \<not> d_lt M (d_0 M) s \<longrightarrow>
      classify_slope M s = (if d_lt M s (d_neg_0_1 M) then ''strong decrease'' else ''slight decrease'')"
    by (simp add: classify_slope_def)
  have d: "abs_laws M \<longrightarrow>
      (classify_slope M s = ''strong increase'' \<or> classify_slope M s = ''strong decrease'' \<longleftrightarrow>
         \<not> d_lt M (d_abs M s) (d_0_01 M) \<and> d_lt M (d_0_1 M) (d_abs M s))"
  proof
    assume l: "abs_laws M"
    show "classify_slope M s = ''strong increase'' \<or> classify_slope M s = ''strong decrease'' \<longleftrightarrow>
         \<not> d_lt M (d_abs M s) (d_0_01 M) \<and> d_lt M (d_0_1 M) (d_abs M s)"
    proof (cases "d_lt M (d_0 M) s")
      case True
      with l have "d_abs M s = s" by (simp add: abs_laws_def)
      with True show ?thesis by (simp add: classify_slope_def)
    next
      case False
      with l have "d_lt M s (d_neg_0_1 M) \<longleftrightarrow> d_lt M (d_0_1 M) (d_abs M s)"
        by (simp add: abs_laws_def)
      with False show ?thesis by (simp add: classify_slope_def)
    qed
  qed
  from a b c d show ?thesis by blast
qed

text \<open>
  Claim C8. Whatever the arithmetic of numbers, the parsers and the sort of the engine: let
  \<open>vs\<close> be the numeric values of the value field in the order the time sort leaves the
  rows in, and \<open>s\<close> the slope of the least-squares line of \<open>vs\<close> against the indices
  \<open>0, \<dots>, n - 1\<close>, computed as \<open>(n * sumXY - sumX * sumY) / (n * sumXX - sumX * sumX)\<close>. With fewer than
  three rows or fewer than three numeric values detectTrend reports insufficient data.
  Otherwise it reports \<open>s\<close> as the slope and labels it "stable" exactly when \<open>|s| < 0.01\<close>;
  if not stable, an increase when \<open>s > 0\<close>, strong if \<open>s > 0.1\<close>, else slight, and a
  decrease when not \<open>s > 0\<close>, strong if \<open>s < -0.1\<close>, else slight; with the two laws of the
  absolute value, the label is a strong one exactly when the slope is not stable and
  \<open>|s| > 0.1\<close>. The percent change never divides by zero: when the first value is 0 it
  is 100 if the last value is not 0 and 0 otherwise, and else it is
  \<open>(last - first) / first * 100\<close> with a first value that is not 0.
\<close>

theorem detectTrend_classes:
  assumes "sortedData =
      array_sort (\<lambda>a b. d_sub M (dateMs (get_field a timeField)) (dateMs (get_field b timeField)))
        data"
    and "vs = filter (\<lambda>v. \<not> d_is_nan M v)
               (map (\<lambda>item. parseFloat (get_field item valueField)) sortedData)"
    and "xs = map (d_num M) [0..<length vs]"
    and "s = d_div M
         (d_sub M (d_mul M (d_num M (length vs)) (d_sum M (map (\<lambda>(x, v). d_mul M x v) (zip xs vs))))
                  (d_mul M (d_sum M xs) (d_sum M vs)))
         (d_sub M (d_mul M (d_num M (length vs)) (d_sum M (map (\<lambda>x. d_mul M x x) xs)))
                  (d_mul M (d_sum M xs) (d_sum M xs)))"
  shows "detectTrend M parseFloat dateMs array_sort data valueField timeField =
      (if length data < 3 then Inr (TrendOnly ''insufficient data'')
       else if length vs < 3 then Inr (TrendOnly ''insufficient valid data'')
       else Inr (TrendFull
         \<lparr>trend =
            (if d_lt M (d_abs M s) (d_0_01 M) then ''stable''
             else if d_lt M (d_0 M) s then
               (if d_lt M (d_0_1 M) s then ''strong increase'' else ''slight increase'')
             else
               (if d_lt M s (d_neg_0_1 M) then ''strong decrease'' else ''slight decrease'')),
          slope = s,
          firstValue = hd vs,
          lastValue = last vs,
          changePercent =
            (if d_is_zero M (hd vs) then (if d_is_zero M (last vs) then d_0 M else d_100 M)
             else d_mul M (d_div M (d_sub M (last vs) (hd vs)) (hd vs)) (d_100 M))\<rparr>)) \<and>
     detectTrend M parseFloat dateMs array_sort data valueField timeField \<noteq> Inl DivisionByZero \<and>
     (abs_laws M \<longrightarrow>
        (\<forall>r. detectTrend M parseFloat dateMs array_sort data valueField timeField = Inr (TrendFull r) \<longrightarrow>
           (trend r = ''stable'' \<longleftrightarrow> d_lt M (d_abs M (slope r)) (d_0_01 M)) \<and>
           (trend r = ''strong increase'' \<or> trend r = ''strong decrease'' \<longleftrightarrow>
              \<not> d_lt M (d_abs M (slope r)) (d_0_01 M) \<and> d_lt M (d_0_1 M) (d_abs M (slope r))) \<and>
           (trend r = ''strong increase'' \<or> trend r = ''slight increase'' \<longleftrightarrow>
              \<not> d_lt M (d_abs M (slope r)) (d_0_01 M) \<and> d_lt M (d_0 M) (slope r))))"
proof -
  let ?res = "detectTrend M parseFloat dateMs array_sort data valueField timeField"
  have series: "trend_series M parseFloat dateMs array_sort data valueField timeField = vs"
    unfolding trend_series_def time_compare_def Let_def assms(1,2) ..
  have sl: "regression_slope M vs = s"
    unfolding regression_slope_formula assms(3,4) ..
  have h: "3 \<le> length vs \<Longrightarrow> vs ! 0 = hd vs"
    by (cases vs) auto
  have l: "3 \<le> length vs \<Longrightarrow> vs ! (length vs - 1) = last vs"
    by (cases vs) (auto simp: last_conv_nth)
  have lab: "classify_slope M s =
      (if d_lt M (d_abs M s) (d_0_01 M) then ''stable''
       else if d_lt M (d_0 M) s then
         (if d_lt M (d_0_1 M) s then ''strong increase'' else ''slight increase'')
       else
         (if d_lt M s (d_neg_0_1 M) then ''strong decrease'' else ''slight decrease''))"
    by (simp add: classify_slope_def)
  have eq: "?res =
      (if length data < 3 then Inr (TrendOnly ''insufficient data'')
       else if length vs < 3 then Inr (TrendOnly ''insufficient valid data'')
       else Inr (TrendFull
         \<lparr>trend = classify_slope M s,
          slope = s,
          firstValue = hd vs,
          lastValue = last vs,
          changePercent =
            (if d_is_zero M (hd vs) then (if d_is_zero M (last vs) then d_0 M else d_100 M)
             else d_mul M (d_div M (d_sub M (last vs) (hd vs)) (hd vs)) (d_100 M))\<rparr>))"
  proof (cases "length data < 3 \<or> length vs < 3")
    case True
    then show ?thesis
      unfolding detectTrend_def series Let_def by auto
  next
    case False
    then have len: "3 \<le> length vs" by simp
    show ?thesis
      unfolding detectTrend_def series Let_def sl percent_change_cases h[OF len] l[OF len]
      using False by simp
  qed
  have ne: "?res \<noteq> Inl DivisionByZero"
    unfolding eq by simp
  have cl: "abs_laws M \<longrightarrow>
        (\<forall>r. ?res = Inr (TrendFull r) \<longrightarrow>
           (trend r = ''stable'' \<longleftrightarrow> d_lt M (d_abs M (slope r)) (d_0_01 M)) \<and>
           (trend r = ''strong increase'' \<or> trend r = ''strong decrease'' \<longleftrightarrow>
              \<not> d_lt M (d_abs M (slope r)) (d_0_01 M) \<and> d_lt M (d_0_1 M) (d_abs M (slope r))) \<and>
           (trend r = ''strong increase'' \<or> trend r = ''slight increase'' \<longleftrightarrow>
              \<not> d_lt M (d_abs M (slope r)) (d_0_01 M) \<and> d_lt M (d_0 M) (slope r)))"
  proof (intro impI allI)
    fix r
    assume laws: "abs_laws M" and r: "?res = Inr (TrendFull r)"
    from r have ts: "trend r = classify_slope M s" "slope r = s"
      unfolding eq by (auto split: if_splits)
    have inc: "classify_slope M s = ''strong increase'' \<or> classify_slope M s = ''slight increase'' \<longleftrightarrow>
              \<not> d_lt M (d_abs M s) (d_0_01 M) \<and> d_lt M (d_0 M) s"
      by (simp add: classify_slope_def)
    show "(trend r = ''stable'' \<longleftrightarrow> d_lt M (d_abs M (slope r)) (d_0_01 M)) \<and>
           (trend r = ''strong increase'' \<or> trend r = ''strong decrease'' \<longleftrightarrow>
              \<not> d_lt M (d_abs M (slope r)) (d_0_01 M) \<and> d_lt M (d_0_1 M) (d_abs M (slope r))) \<and>
           (trend r = ''strong increase'' \<or> trend r = ''slight increase'' \<longleftrightarrow>
              \<not> d_lt M (d_abs M (slope r)) (d_0_01 M) \<and> d_lt M (d_0 M) (slope r))"
      unfolding ts using classify_slope_cases[of M s] laws inc by blast
  qed
  from eq ne cl show ?thesis unfolding lab by blast
qed

lemma from_zero_trend:
  "detectTrend exact_arith parseFloat_num parseFloat_num insertion_sort from_zero ''sales'' ''day'' =
     Inr (TrendFull \<lparr>trend = ''strong increase'', slope = Some 4, firstValue = Some 0,
                       lastValue = Some 8, changePercent = Some 100\<rparr>)"
  by code_simp

lemma from_zero_series:
  "filter (\<lambda>v. \<not> d_is_nan exact_arith v)
     (map (\<lambda>item. parseFloat_num (get_field item ''sales''))
        (insertion_sort
           (\<lambda>a b. d_sub exact_arith (parseFloat_num (get_field a ''day''))
                                     (parseFloat_num (get_field b ''day'')))
           from_zero)) = [Some 0, Some 4, Some 8]"
  by code_simp

text \<open>The theorem of C8 in exact arithmetic, on three days of sales that start at zero.\<close>

theorem detectTrend_classes_witness:
  "detectTrend exact_arith parseFloat_num parseFloat_num insertion_sort from_zero ''sales'' ''day'' =
     Inr (TrendFull \<lparr>trend = ''strong increase'', slope = Some 4, firstValue = Some 0,
                       lastValue = Some 8, changePercent = Some 100\<rparr>) \<and>
   filter (\<lambda>v. \<not> d_is_nan exact_arith v)
     (map (\<lambda>item. parseFloat_num (get_field item ''sales''))
        (insertion_sort
           (\<lambda>a b. d_sub exact_arith (parseFloat_num (get_field a ''day''))
                                     (parseFloat_num (get_field b ''day'')))
           from_zero)) = [Some 0, Some 4, Some 8] \<and>
   abs_laws exact_arith \<and>
   d_is_zero exact_arith (Some 0) \<and> \<not> d_is_zero exact_arith (Some 8) \<and>
   d_lt exact_arith (d_0_1 exact_arith) (d_abs exact_arith (Some 4)) \<and>
   \<not> d_lt exact_arith (d_abs exact_arith (Some 4)) (d_0_01 exact_arith)"
proof -
  have z: "d_is_zero exact_arith (Some 0)" "\<not> d_is_zero exact_arith (Some 8)"
    "d_lt exact_arith (d_0_1 exact_arith) (d_abs exact_arith (Some 4))"
    "\<not> d_lt exact_arith (d_abs exact_arith (Some 4)) (d_0_01 exact_arith)"
    by (simp_all add: exact_arith_def)
  from detectTrend_classes [OF refl refl refl refl, of exact_arith parseFloat_num
      parseFloat_num insertion_sort from_zero "''sales''" "''day''"]
  have "abs_laws exact_arith \<longrightarrow>
     (\<forall>r. detectTrend exact_arith parseFloat_num parseFloat_num insertion_sort from_zero
            ''sales'' ''day'' = Inr (TrendFull r) \<longrightarrow>
          (trend r = ''stable'' \<longleftrightarrow> d_lt exact_arith (d_abs exact_arith (slope r)) (d_0_01 exact_arith)))"
    by blast
  with exact_abs_laws from_zero_trend from_zero_series z show ?thesis by blast
qed

section \<open>The correlation matrix: symmetry and diagonal\<close>

lemma fold_upd_get:
  "fold (\<lambda>k r. r(k \<mapsto> g k)) ks r0 x = (if x \<in> set ks then Some (g x) else r0 x)"
  by (induction ks arbitrary: r0) auto

lemma init_matrix_get:
  "matrix_get (init_matrix flds) a b =
     (if a \<in> set flds \<and> b \<in> set flds then Some (if a = b then ENum (Finite 1) else ENull)
      else None)"
  unfolding matrix_get_def init_matrix_def init_row_def fold_upd_get by simp

lemma init_matrix_rows: "rows_ok flds (init_matrix flds)"
  unfolding rows_ok_def init_matrix_def fold_upd_get by simp

lemma matrix_get_set:
  "m a \<noteq> None \<Longrightarrow>
   matrix_get (matrix_set m a b c) x y = (if x = a \<and> y = b then Some c else matrix_get m x y)"
  by (auto simp: matrix_get_def matrix_set_def split: option.splits)

lemma matrix_set_rows: "rows_ok flds m \<Longrightarrow> rows_ok flds (matrix_set m a b c)"
  by (auto simp: rows_ok_def matrix_set_def split: option.splits)

lemma matrix_set_defined: "m x \<noteq> None \<Longrightarrow> matrix_set m a b c x \<noteq> None"
  by (auto simp: matrix_set_def split: option.splits)

lemma pair_get:
  assumes "m a \<noteq> None" "m b \<noteq> None"
  shows "matrix_get (matrix_set (matrix_set m a b c) b a c) x y =
     (if (x = a \<and> y = b) \<or> (x = b \<and> y = a) then Some c else matrix_get m x y)"
proof -
  have 1: "matrix_set m a b c b \<noteq> None"
    using assms(2) by (rule matrix_set_defined[of m b a b c])
  have 2: "matrix_get (matrix_set (matrix_set m a b c) b a c) x y =
      (if x = b \<and> y = a then Some c else matrix_get (matrix_set m a b c) x y)"
    using 1 by (rule matrix_get_set[of "matrix_set m a b c" b a c x y])
  have 3: "matrix_get (matrix_set m a b c) x y = (if x = a \<and> y = b then Some c else matrix_get m x y)"
    using assms(1) by (rule matrix_get_set[of m a b c x y])
  show ?thesis using 2 3 by metis
qed

lemma correlate_pair_get:
  assumes "rows_ok flds m" "i < length flds" "j < length flds"
  shows "matrix_get (correlate_pair pf sc data flds i j m) x y =
     (if (x = flds ! i \<and> y = flds ! j) \<or> (x = flds ! j \<and> y = flds ! i)
      then Some (calculateCorrelation pf sc data (flds ! i) (flds ! j))
      else matrix_get m x y)"
proof -
  have "m (flds ! i) \<noteq> None" "m (flds ! j) \<noteq> None"
    using assms by (simp_all add: rows_ok_def)
  then show ?thesis
    unfolding correlate_pair_def Let_def
    by (rule pair_get[of m "flds ! i" "flds ! j"])
qed

lemma correlate_pair_inv:
  assumes "corr_inv flds m" "i < j" "j < length flds"
  shows "corr_inv flds (correlate_pair pf sc data flds i j m)"
proof -
  let ?a = "flds ! i" and ?b = "flds ! j"
  let ?c = "calculateCorrelation pf sc data ?a ?b"
  let ?m' = "correlate_pair pf sc data flds i j m"
  have mem: "?a \<in> set flds" "?b \<in> set flds" using assms(2,3) by auto
  have ro: "rows_ok flds m" using assms(1) by (simp add: corr_inv_def)
  have g: "\<And>x y. matrix_get ?m' x y =
     (if (x = ?a \<and> y = ?b) \<or> (x = ?b \<and> y = ?a) then Some ?c else matrix_get m x y)"
    using ro assms(2,3) by (intro correlate_pair_get) auto
  have r: "rows_ok flds ?m'"
    using ro unfolding correlate_pair_def Let_def by (intro matrix_set_rows)
  have s: "symmetric ?m'" using assms(1) unfolding corr_inv_def symmetric_def g by auto
  have e: "entries_defined flds ?m'"
    using assms(1) unfolding corr_inv_def entries_defined_def g by auto
  have d: "distinct flds \<longrightarrow> diag_one flds ?m'"
  proof
    assume dist: "distinct flds"
    then have "?a \<noteq> ?b" using assms(2,3) by (simp add: nth_eq_iff_index_eq)
    then show "diag_one flds ?m'" using assms(1) dist unfolding corr_inv_def diag_one_def g by auto
  qed
  show ?thesis unfolding corr_inv_def using r s e d by blast
qed

lemma correlate_pair_stored:
  assumes inv: "corr_inv flds m" and ij: "i < j" "j < length flds" and dist: "distinct flds"
    and st: "stored pf sc data flds i j m"
  shows "stored pf sc data flds i (Suc j) (correlate_pair pf sc data flds i j m)"
  unfolding stored_def
proof (intro allI impI)
  fix p q
  assume pd: "pair_done (length flds) i (Suc j) p q"
  let ?m' = "correlate_pair pf sc data flds i j m"
  have ro: "rows_ok flds m" using inv by (simp add: corr_inv_def)
  have g: "matrix_get ?m' (flds ! p) (flds ! q) =
     (if (flds ! p = flds ! i \<and> flds ! q = flds ! j) \<or> (flds ! p = flds ! j \<and> flds ! q = flds ! i)
      then Some (calculateCorrelation pf sc data (flds ! i) (flds ! j))
      else matrix_get m (flds ! p) (flds ! q))"
    using ro ij by (intro correlate_pair_get) auto
  from pd have pq: "p < q" "q < length flds" by (simp_all add: pair_done_def)
  then have pl: "p < length flds" by simp
  have il: "i < length flds" using ij by simp
  have eq: "\<And>a b. a < length flds \<Longrightarrow> b < length flds \<Longrightarrow> (flds ! a = flds ! b) = (a = b)"
    using dist by (simp add: nth_eq_iff_index_eq)
  show "matrix_get ?m' (flds ! p) (flds ! q) =
      Some (calculateCorrelation pf sc data (flds ! p) (flds ! q))"
  proof (cases "p = i \<and> q = j")
    case True
    then show ?thesis unfolding g by simp
  next
    case False
    have n1: "\<not> (flds ! p = flds ! i \<and> flds ! q = flds ! j)"
      using False eq[OF pl il] eq[OF pq(2) ij(2)] by blast
    have n2: "\<not> (flds ! p = flds ! j \<and> flds ! q = flds ! i)"
    proof
      assume "flds ! p = flds ! j \<and> flds ! q = flds ! i"
      then have "p = j" "q = i" using eq[OF pl ij(2)] eq[OF pq(2) il] by blast+
      with pq(1) ij(1) show False by simp
    qed
    from pd False have "pair_done (length flds) i j p q"
      unfolding pair_done_def by (metis less_Suc_eq)
    with st have old: "matrix_get m (flds ! p) (flds ! q) =
        Some (calculateCorrelation pf sc data (flds ! p) (flds ! q))"
      by (simp add: stored_def)
    from n1 n2 have c: "\<not> ((flds ! p = flds ! i \<and> flds ! q = flds ! j) \<or>
        (flds ! p = flds ! j \<and> flds ! q = flds ! i))" by blast
    show ?thesis unfolding g if_not_P[OF c] by (rule old)
  qed
qed

lemma correlate_inner:
  assumes "i < length flds"
  shows "Suc i \<le> b \<Longrightarrow> b \<le> length flds \<Longrightarrow> corr_inv flds m \<Longrightarrow>
     (distinct flds \<longrightarrow> stored pf sc data flds i (Suc i) m) \<Longrightarrow>
     corr_inv flds (fold (correlate_pair pf sc data flds i) [Suc i..<b] m) \<and>
     (distinct flds \<longrightarrow>
        stored pf sc data flds i b (fold (correlate_pair pf sc data flds i) [Suc i..<b] m))"
proof (induction b)
  case 0
  then show ?case by simp
next
  case (Suc b)
  show ?case
  proof (cases "Suc i = Suc b")
    case True
    then show ?thesis using Suc.prems by simp
  next
    case False
    then have le: "Suc i \<le> b" "b \<le> length flds" "b < length flds" "i < b"
      using Suc.prems by simp_all
    let ?m1 = "fold (correlate_pair pf sc data flds i) [Suc i..<b] m"
    have ih: "corr_inv flds ?m1" "distinct flds \<longrightarrow> stored pf sc data flds i b ?m1"
      using Suc.IH[OF le(1,2) Suc.prems(3,4)] by blast+
    have f: "fold (correlate_pair pf sc data flds i) [Suc i..<Suc b] m =
        correlate_pair pf sc data flds i b ?m1"
      using le(1) by simp
    have 1: "corr_inv flds (correlate_pair pf sc data flds i b ?m1)"
      using ih(1) le(4,3) by (rule correlate_pair_inv)
    have 2: "distinct flds \<longrightarrow> stored pf sc data flds i (Suc b) (correlate_pair pf sc data flds i b ?m1)"
      using correlate_pair_stored[OF ih(1) le(4,3)] ih(2) by blast
    show ?thesis unfolding f using 1 2 by blast
  qed
qed

lemma stored_next_row:
  "stored pf sc data flds i (length flds) m \<Longrightarrow> stored pf sc data flds (Suc i) (Suc (Suc i)) m"
  unfolding stored_def pair_done_def by (metis less_Suc_eq not_less_eq)

lemma correlate_row_inv:
  assumes "i < length flds" "corr_inv flds m"
    "distinct flds \<longrightarrow> stored pf sc data flds i (Suc i) m"
  shows "corr_inv flds (correlate_row pf sc data flds i m) \<and>
     (distinct flds \<longrightarrow> stored pf sc data flds (Suc i) (Suc (Suc i)) (correlate_row pf sc data flds i m))"
proof -
  have le: "Suc i \<le> length flds" using assms(1) by simp
  have "corr_inv flds (fold (correlate_pair pf sc data flds i) [Suc i..<length flds] m) \<and>
     (distinct flds \<longrightarrow>
        stored pf sc data flds i (length flds)
          (fold (correlate_pair pf sc data flds i) [Suc i..<length flds] m))"
    using assms(1) le le_refl assms(2,3) by (rule correlate_inner)
  then show ?thesis unfolding correlate_row_def using stored_next_row by blast
qed

lemma correlate_outer:
  "k \<le> length flds \<Longrightarrow> corr_inv flds m \<Longrightarrow>
   (distinct flds \<longrightarrow> stored pf sc data flds 0 (Suc 0) m) \<Longrightarrow>
   corr_inv flds (fold (correlate_row pf sc data flds) [0..<k] m) \<and>
   (distinct flds \<longrightarrow> stored pf sc data flds k (Suc k) (fold (correlate_row pf sc data flds) [0..<k] m))"
proof (induction k)
  case 0
  then show ?case by simp
next
  case (Suc k)
  then have k: "k < length flds" "k \<le> length flds" by simp_all
  let ?m1 = "fold (correlate_row pf sc data flds) [0..<k] m"
  have ih: "corr_inv flds ?m1" "distinct flds \<longrightarrow> stored pf sc data flds k (Suc k) ?m1"
    using Suc.IH[OF k(2) Suc.prems(2,3)] by blast+
  have f: "fold (correlate_row pf sc data flds) [0..<Suc k] m = correlate_row pf sc data flds k ?m1"
    by simp
  show ?case unfolding f by (rule correlate_row_inv[OF k(1) ih])
qed

lemma init_inv: "corr_inv flds (init_matrix flds)"
  unfolding corr_inv_def symmetric_def diag_one_def entries_defined_def
  using init_matrix_rows by (auto simp: init_matrix_get)

lemma stored_start: "stored pf sc data flds 0 (Suc 0) m"
  by (simp add: stored_def pair_done_def)

lemma correlate_all_inv:
  "corr_inv flds (correlate_all pf sc data flds (init_matrix flds)) \<and>
   (distinct flds \<longrightarrow>
      stored pf sc data flds (length flds) (Suc (length flds))
        (correlate_all pf sc data flds (init_matrix flds)))"
  unfolding correlate_all_def
proof -
  have "distinct flds \<longrightarrow> stored pf sc data flds 0 (Suc 0) (init_matrix flds)"
    using stored_start by blast
  with le_refl init_inv show "corr_inv flds (fold (correlate_row pf sc data flds) [0..<length flds] (init_matrix flds)) \<and>
   (distinct flds \<longrightarrow>
      stored pf sc data flds (length flds) (Suc (length flds))
        (fold (correlate_row pf sc data flds) [0..<length flds] (init_matrix flds)))"
    by (rule correlate_outer)
qed

lemma js_equal_self: "js_equal v v \<longleftrightarrow> v \<noteq> ENum NaN"
  by (cases v) auto

text \<open>
  Claim C6, as amended. When calculateCorrelationMatrix returns a matrix (there is data,
  there are at least two fields) and no field is named \<open>__proto__\<close>: for every two of
  the given fields A and B the cells (A, B) and (B, A) are present and hold the same value,
  so that they compare equal with \<open>==\<close> unless that value is NaN; and when no field name
  is given twice, every diagonal entry (A, A) is 1 and the entry of a field with a later
  one is the value calculateCorrelation gives for the two, in this order. Nothing is said
  of the diagonal when a name is repeated, nor of a field named \<open>__proto__\<close>.
\<close>

theorem calculateCorrelationMatrix_symmetric:
  assumes "calculateCorrelationMatrix parseFloat sampleCorrelation data flds = Matrix m"
  shows "''__proto__'' \<notin> set flds \<and>
         (\<forall>a\<in>set flds. \<forall>b\<in>set flds.
            \<exists>v. matrix_get m a b = Some v \<and> matrix_get m b a = Some v \<and>
                (js_equal v v \<longleftrightarrow> v \<noteq> ENum NaN)) \<and>
         (distinct flds \<longrightarrow>
            (\<forall>a\<in>set flds. matrix_get m a a = Some (ENum (Finite 1))) \<and>
            (\<forall>i j. i < j \<and> j < length flds \<longrightarrow>
               matrix_get m (flds ! i) (flds ! j) =
                 Some (calculateCorrelation parseFloat sampleCorrelation data (flds ! i) (flds ! j))))"
proof -
  from assms have np: "''__proto__'' \<notin> set flds"
    and m: "m = correlate_all parseFloat sampleCorrelation data flds (init_matrix flds)"
    by (simp_all add: calculateCorrelationMatrix_def split: if_splits)
  have i: "corr_inv flds m"
    and st: "distinct flds \<longrightarrow>
      stored parseFloat sampleCorrelation data flds (length flds) (Suc (length flds)) m"
    unfolding m using correlate_all_inv by blast+
  have sym: "\<forall>a\<in>set flds. \<forall>b\<in>set flds.
            \<exists>v. matrix_get m a b = Some v \<and> matrix_get m b a = Some v \<and>
                (js_equal v v \<longleftrightarrow> v \<noteq> ENum NaN)"
  proof (intro ballI)
    fix a b assume "a \<in> set flds" "b \<in> set flds"
    with i obtain v where v: "matrix_get m a b = Some v"
      by (auto simp: corr_inv_def entries_defined_def)
    moreover from i have "matrix_get m b a = matrix_get m a b"
      by (simp add: corr_inv_def symmetric_def)
    ultimately show "\<exists>v. matrix_get m a b = Some v \<and> matrix_get m b a = Some v \<and>
                (js_equal v v \<longleftrightarrow> v \<noteq> ENum NaN)"
      using js_equal_self by auto
  qed
  have dg: "distinct flds \<longrightarrow> (\<forall>a\<in>set flds. matrix_get m a a = Some (ENum (Finite 1)))"
    using i by (simp add: corr_inv_def diag_one_def)
  have ct: "distinct flds \<longrightarrow> (\<forall>i j. i < j \<and> j < length flds \<longrightarrow>
               matrix_get m (flds ! i) (flds ! j) =
                 Some (calculateCorrelation parseFloat sampleCorrelation data (flds ! i) (flds ! j)))"
  proof (intro impI allI)
    fix i j
    assume d: "distinct flds" and ij: "i < j \<and> j < length flds"
    then have "pair_done (length flds) (length flds) (Suc (length flds)) i j"
      by (simp add: pair_done_def)
    with st d show "matrix_get m (flds ! i) (flds ! j) =
        Some (calculateCorrelation parseFloat sampleCorrelation data (flds ! i) (flds ! j))"
      by (simp add: stored_def)
  qed
  from np sym dg ct show ?thesis by blast
qed

lemma three_rows_matrix:
  "correlation_entry
     (calculateCorrelationMatrix parseFloat_number standin_correlation three_rows [''a'', ''b''])
     ''a'' ''b'' = Some (ENum (Finite (1 / 2)))"
  by code_simp

text \<open>The theorem of C6 on three rows and the two fields a and b.\<close>

theorem calculateCorrelationMatrix_symmetric_witness:
  "\<exists>m. calculateCorrelationMatrix parseFloat_number standin_correlation three_rows [''a'', ''b'']
          = Matrix m \<and>
       distinct [''a'', ''b''] \<and>
       matrix_get m ''a'' ''b'' = Some (ENum (Finite (1 / 2))) \<and>
       matrix_get m ''b'' ''a'' = Some (ENum (Finite (1 / 2))) \<and>
       js_equal (ENum (Finite (1 / 2))) (ENum (Finite (1 / 2))) \<and>
       matrix_get m ''a'' ''a'' = Some (ENum (Finite 1)) \<and>
       matrix_get m ''b'' ''b'' = Some (ENum (Finite 1))"
proof -
  obtain m where m:
    "calculateCorrelationMatrix parseFloat_number standin_correlation three_rows [''a'', ''b'']
       = Matrix m"
    by (simp add: calculateCorrelationMatrix_def three_rows_def)
  have ab: "matrix_get m ''a'' ''b'' = Some (ENum (Finite (1 / 2)))"
    using three_rows_matrix unfolding m by (simp add: correlation_entry_def)
  have d: "distinct [''a'', ''b'']" by simp
  have mem: "''a'' \<in> set [''a'', ''b'']" "''b'' \<in> set [''a'', ''b'']" by simp_all
  from calculateCorrelationMatrix_symmetric[OF m] d
  have dg: "matrix_get m ''a'' ''a'' = Some (ENum (Finite 1))"
    "matrix_get m ''b'' ''b'' = Some (ENum (Finite 1))"
    using mem by blast+
  from calculateCorrelationMatrix_symmetric[OF m] mem
  obtain v where "matrix_get m ''a'' ''b'' = Some v" "matrix_get m ''b'' ''a'' = Some v"
    by blast
  with ab have ba: "matrix_get m ''b'' ''a'' = Some (ENum (Finite (1 / 2)))" by simp
  have e: "js_equal (ENum (Finite (1 / 2))) (ENum (Finite (1 / 2)))" by simp
  from m d ab ba e dg show ?thesis by blast
qed

text \<open>
  Claim C6 as stated fails in two ways. With a constant column the correlation is NaN, which
  is stored in both cells and is not equal to itself. With one row of data and the fields
  a, a, the pair loop stores the correlation of a with itself, \<open>null\<close> below three rows, on
  the diagonal.
\<close>

theorem calculateCorrelationMatrix_counterexample:
  "correlation_entry
     (calculateCorrelationMatrix parseFloat_number standin_correlation constant_column
        [''a'', ''b''])
     ''a'' ''b'' = Some (ENum NaN) \<and>
   correlation_entry
     (calculateCorrelationMatrix parseFloat_number standin_correlation constant_column
        [''a'', ''b''])
     ''b'' ''a'' = Some (ENum NaN) \<and>
   \<not> js_equal (ENum NaN) (ENum NaN) \<and>
   correlation_entry
     (calculateCorrelationMatrix parseFloat_number standin_correlation (take 1 three_rows)
        [''a'', ''a''])
     ''a'' ''a'' = Some ENull"
  by code_simp

section \<open>chunkJsonData: the sequence of events\<close>

lemma total_chunks: "nat \<lceil>real n / real chunkSize\<rceil> = (n + 99) div 100"
proof -
  have "\<lceil>real n / real chunkSize\<rceil> = \<lceil>of_int (int n) / (of_int 100 :: real)\<rceil>"
    by (simp add: chunkSize_def)
  also have "\<dots> = - (- int n div 100)" by (rule ceiling_divide_eq_div)
  finally show ?thesis by (simp add: chunkSize_def)
qed

lemma chunk_loop_from:
  "(chunk_loop rows (100 * k) :: ('r, 'x) update list) =
     map (\<lambda>j. RawDataChunk (take 100 (drop (100 * j) rows)) j ((length rows + 99) div 100))
         [k..<(length rows + 99) div 100]"
proof (induction rows "100 * k" arbitrary: k rule: chunk_loop.induct)
  case (1 rows)
  show ?case
  proof (cases "100 * k < length rows")
    case True
    then have k: "k < (length rows + 99) div 100" by linarith
    have "(chunk_loop rows (100 * k + chunkSize) :: ('r, 'x) update list) =
       map (\<lambda>j. RawDataChunk (take 100 (drop (100 * j) rows)) j ((length rows + 99) div 100))
         [Suc k..<(length rows + 99) div 100]"
      using 1[OF True, of "Suc k"] by (simp add: chunkSize_def add.commute)
    then show ?thesis
      using True k
      by (subst chunk_loop.simps) (simp add: total_chunks upt_conv_Cons, simp add: chunkSize_def)
  next
    case False
    then have "(length rows + 99) div 100 \<le> k" by linarith
    with False show ?thesis by (subst chunk_loop.simps) simp
  qed
qed

lemma total_chunks_100: "nat \<lceil>real n / 100\<rceil> = (n + 99) div 100"
  using total_chunks[of n] by (simp add: chunkSize_def)

text \<open>
  Claim C4, as amended. Let the serialised response have \<open>len\<close> characters. Below 50,000
  the response is sent as one event. From 50,000 on, and with a non-empty rawData, the events
  are those of the specification: the response with rawData emptied and rawDataPending set,
  one event per consecutive slice of 100 rows with its index and the number of slices
  \<open>ceil(rowCount / 100)\<close>, and the completion event with the row count. From 50,000 on with
  an empty rawData the response is sent unchanged, as one event, and nothing follows. For
  250 rows the slices are three, of 100, 100 and 50 rows.
\<close>

theorem chunkJsonData_events:
  assumes "jsonLength data = Inr len"
  shows "(len < 50000 \<or> rawData data \<noteq> [] \<longrightarrow>
            chunkJsonData jsonLength data = chunk_events_spec len data) \<and>
         (50000 \<le> len \<and> rawData data = [] \<longrightarrow>
            chunkJsonData jsonLength data = [Response data]) \<and>
         (50000 \<le> len \<and> length (rawData data) = 250 \<longrightarrow>
            chunkJsonData jsonLength data =
              [Response (data\<lparr>rawData := [], rawDataPending := True\<rparr>),
               RawDataChunk (take 100 (rawData data)) 0 3,
               RawDataChunk (take 100 (drop 100 (rawData data))) 1 3,
               RawDataChunk (drop 200 (rawData data)) 2 3,
               RawDataComplete 250] \<and>
            length (take 100 (rawData data)) = 100 \<and>
            length (take 100 (drop 100 (rawData data))) = 100 \<and>
            length (drop 200 (rawData data)) = 50)"
proof -
  let ?n = "length (rawData data)"
  let ?t = "(?n + 99) div 100"
  have loop: "(chunk_loop (rawData data) 0 :: ('a, 'b) update list) =
      map (\<lambda>k. RawDataChunk (take 100 (drop (100 * k) (rawData data))) k ?t) [0..<?t]"
    using chunk_loop_from[of "rawData data" 0] by simp
  have small: "len < 50000 \<Longrightarrow> chunkJsonData jsonLength data = [Response data]"
    using assms by (simp add: chunkJsonData_def)
  have large: "50000 \<le> len \<Longrightarrow> rawData data \<noteq> [] \<Longrightarrow>
      chunkJsonData jsonLength data =
        Response (data\<lparr>rawData := [], rawDataPending := True\<rparr>) #
        map (\<lambda>k. RawDataChunk (take 100 (drop (100 * k) (rawData data))) k ?t) [0..<?t] @
        [RawDataComplete ?n]"
    using assms loop by (simp add: chunkJsonData_def Let_def)
  have empty: "50000 \<le> len \<Longrightarrow> rawData data = [] \<Longrightarrow>
      chunkJsonData jsonLength data = [Response data]"
    using assms by (simp add: chunkJsonData_def Let_def)
  have a: "len < 50000 \<or> rawData data \<noteq> [] \<longrightarrow>
            chunkJsonData jsonLength data = chunk_events_spec len data"
    using small large by (auto simp: chunk_events_spec_def total_chunks_100)
  have upt3: "[0..<3] = [0, 1, Suc 1]" by (simp add: upt_conv_Cons)
  have c: "50000 \<le> len \<and> ?n = 250 \<longrightarrow>
            chunkJsonData jsonLength data =
              [Response (data\<lparr>rawData := [], rawDataPending := True\<rparr>),
               RawDataChunk (take 100 (rawData data)) 0 3,
               RawDataChunk (take 100 (drop 100 (rawData data))) 1 3,
               RawDataChunk (drop 200 (rawData data)) 2 3,
               RawDataComplete 250] \<and>
            length (take 100 (rawData data)) = 100 \<and>
            length (take 100 (drop 100 (rawData data))) = 100 \<and>
            length (drop 200 (rawData data)) = 50"
  proof
    assume h: "50000 \<le> len \<and> ?n = 250"
    then have ne: "rawData data \<noteq> []" by auto
    have t: "?t = 3" using h by simp
    show "chunkJsonData jsonLength data =
              [Response (data\<lparr>rawData := [], rawDataPending := True\<rparr>),
               RawDataChunk (take 100 (rawData data)) 0 3,
               RawDataChunk (take 100 (drop 100 (rawData data))) 1 3,
               RawDataChunk (drop 200 (rawData data)) 2 3,
               RawDataComplete 250] \<and>
            length (take 100 (rawData data)) = 100 \<and>
            length (take 100 (drop 100 (rawData data))) = 100 \<and>
            length (drop 200 (rawData data)) = 50"
      using large[OF _ ne] h unfolding t upt3 by simp
  qed
  from a empty c show ?thesis by blast
qed

text \<open>The theorem of C4 at a long response of 250 rows, a short one, and a long one
  without rows.\<close>

theorem chunkJsonData_events_witness:
  "long_json response_250 = Inr 60000 \<and> length (rawData response_250) = 250 \<and>
   chunkJsonData long_json response_250 =
     [Response (response_250\<lparr>rawData := [], rawDataPending := True\<rparr>),
      RawDataChunk (take 100 (rawData response_250)) 0 3,
      RawDataChunk (take 100 (drop 100 (rawData response_250))) 1 3,
      RawDataChunk (drop 200 (rawData response_250)) 2 3,
      RawDataComplete 250] \<and>
   short_json response_250 = Inr 1200 \<and>
   chunkJsonData short_json response_250 = chunk_events_spec 1200 response_250 \<and>
   rawData response_empty = [] \<and>
   chunkJsonData long_json response_empty = [Response response_empty]"
proof -
  have l: "long_json response_250 = Inr 60000" "long_json response_empty = Inr 60000"
    and s: "short_json response_250 = Inr 1200"
    by (simp_all add: long_json_def short_json_def)
  have r: "rawData response_empty = []"
    by (simp add: response_empty_def)
  have n: "length (rawData response_250) = 250"
    by (simp add: response_250_def)
  have c: "(50000::nat) \<le> 60000" "(1200::nat) < 50000" by simp_all
  from chunkJsonData_events[of long_json response_250 60000, OF l(1)]
    chunkJsonData_events[of short_json response_250 1200, OF s]
    chunkJsonData_events[of long_json response_empty 60000, OF l(2)]
  show ?thesis using l s n r c by blast
qed

text \<open>
  Claim C4 as stated fails for a long response whose rawData is empty: the one event sent is
  the response itself, without the pending flag, and no completion event follows.
\<close>

theorem chunkJsonData_counterexample:
  "chunkJsonData long_json response_empty = [Response response_empty] \<and>
   chunkJsonData long_json response_empty \<noteq> chunk_events_spec 60000 response_empty"
  by (simp add: chunkJsonData_def long_json_def response_empty_def chunk_events_spec_def)

lemma retry_ok:
  "operation k = Inr v \<Longrightarrow> retryWithBackoff operation jitter k = (Returned v, [])"
  by (subst retryWithBackoff.simps) simp

lemma retry_nullish:
  "operation k = Inl Nullish \<Longrightarrow> retryWithBackoff operation jitter k = (RaisedTypeError, [])"
  by (subst retryWithBackoff.simps) simp

lemma retry_again:
  "operation k = Inl (Thrown st m) \<Longrightarrow> isRateLimit st m \<Longrightarrow> k < 3 \<Longrightarrow>
   retryWithBackoff operation jitter k =
     (fst (retryWithBackoff operation jitter (k + 1)),
      backoff_delay jitter k # snd (retryWithBackoff operation jitter (k + 1)))"
  by (subst retryWithBackoff.simps)
     (simp add: maxRetries_def baseDelay_def backoff_delay_def split: prod.split)

lemma retry_rethrow:
  "operation k = Inl (Thrown st m) \<Longrightarrow> \<not> isRateLimit st m \<Longrightarrow> k < 3 \<Longrightarrow>
   retryWithBackoff operation jitter k = (Raised (Thrown st m), [])"
  by (subst retryWithBackoff.simps) (simp add: maxRetries_def)

lemma retry_exhausted:
  "operation k = Inl (Thrown st m) \<Longrightarrow> isRateLimit st m \<Longrightarrow> 3 \<le> k \<Longrightarrow>
   retryWithBackoff operation jitter k = (Raised rate_limit_exceeded, [])"
  by (subst retryWithBackoff.simps) (simp add: maxRetries_def)

lemma retry_wrapped:
  "operation k = Inl (Thrown st m) \<Longrightarrow> \<not> isRateLimit st m \<Longrightarrow> 3 \<le> k \<Longrightarrow>
   retryWithBackoff operation jitter k = (Raised (max_retries_exceeded m), [])"
  by (subst retryWithBackoff.simps) (simp add: maxRetries_def)

lemma retry_char:
  "\<exists>n. snd (retryWithBackoff operation jitter k) = map (backoff_delay jitter) [k..<k + n] \<and>
       (k \<le> 3 \<longrightarrow> k + n \<le> 3) \<and>
       (\<forall>i. k \<le> i \<and> i < k + n \<longrightarrow> rate_limited_at operation i) \<and>
       (rate_limited_at operation (k + n) \<longrightarrow> 3 \<le> k + n) \<and>
       fst (retryWithBackoff operation jitter k) = final_outcome operation (k + n)"
  (is "\<exists>n. ?P operation jitter k n")
proof (induction operation jitter k rule: retryWithBackoff.induct)
  case (1 operation jitter k)
  show ?case
  proof (cases "operation k")
    case (Inr v)
    then have "?P operation jitter k 0"
      by (auto simp: retry_ok final_outcome_def rate_limited_at_def)
    then show ?thesis ..
  next
    case (Inl t)
    show ?thesis
    proof (cases t)
      case Nullish
      with Inl have "?P operation jitter k 0"
        by (auto simp: retry_nullish final_outcome_def rate_limited_at_def)
      then show ?thesis ..
    next
      case (Thrown st m)
      note op = Inl[unfolded Thrown]
      show ?thesis
      proof (cases "isRateLimit st m")
        case False
        then have "?P operation jitter k 0"
          using op
          by (cases "k < 3")
             (auto simp: retry_rethrow retry_wrapped final_outcome_def rate_limited_at_def)
        then show ?thesis ..
      next
        case rl: True
        show ?thesis
        proof (cases "k < 3")
          case False
          then have "?P operation jitter k 0"
            using op rl by (auto simp: retry_exhausted final_outcome_def rate_limited_at_def)
          then show ?thesis ..
        next
          case True
          let ?r = "retryWithBackoff operation jitter (k + 1)"
          have "\<exists>n. ?P operation jitter (k + 1) n"
            using 1[OF Inl Thrown] rl True by (simp add: maxRetries_def)
          then obtain n where
            ih1: "snd ?r = map (backoff_delay jitter) [k + 1..<k + 1 + n]" and
            ih2: "k + 1 \<le> 3 \<longrightarrow> k + 1 + n \<le> 3" and
            ih3: "\<forall>i. k + 1 \<le> i \<and> i < k + 1 + n \<longrightarrow> rate_limited_at operation i" and
            ih4: "rate_limited_at operation (k + 1 + n) \<longrightarrow> 3 \<le> k + 1 + n" and
            ih5: "fst ?r = final_outcome operation (k + 1 + n)"
            by blast
          have eq: "retryWithBackoff operation jitter k = (fst ?r, backoff_delay jitter k # snd ?r)"
            using op rl True by (rule retry_again[of operation k st m jitter])
          have at_k: "rate_limited_at operation k"
            using op rl by (simp add: rate_limited_at_def)
          have u: "[k..<k + Suc n] = k # [k + 1..<k + 1 + n]"
            using upt_conv_Cons[of k "k + 1 + n"] by simp
          have p1: "snd (retryWithBackoff operation jitter k) =
              map (backoff_delay jitter) [k..<k + Suc n]"
            unfolding eq u ih1 by simp
          have p2: "k \<le> 3 \<longrightarrow> k + Suc n \<le> 3" using ih2 True by simp
          have p3: "\<forall>i. k \<le> i \<and> i < k + Suc n \<longrightarrow> rate_limited_at operation i"
          proof (intro allI impI)
            fix i assume "k \<le> i \<and> i < k + Suc n"
            then consider "i = k" | "k + 1 \<le> i \<and> i < k + 1 + n" by linarith
            then show "rate_limited_at operation i"
              using at_k ih3 by cases blast+
          qed
          have p4: "rate_limited_at operation (k + Suc n) \<longrightarrow> 3 \<le> k + Suc n"
            using ih4 by simp
          have p5: "fst (retryWithBackoff operation jitter k) = final_outcome operation (k + Suc n)"
            unfolding eq using ih5 by simp
          from p1 p2 p3 p4 p5 have "?P operation jitter k (Suc n)" by blast
          then show ?thesis ..
        qed
      qed
    qed
  qed
qed

lemma str_includes_sublist: "str_includes s p \<longleftrightarrow> (\<exists>pre post. s = pre @ p @ post)"
proof -
  have "str_includes s p = sublist p s"
    by (induction s) (simp_all add: sublist_Cons_right)
  then show ?thesis by (simp add: sublist_def)
qed

lemma isRateLimit_iff:
  "isRateLimit st m \<longleftrightarrow>
     (st = Some 429 \<or>
      (\<exists>pre post. m = Some (pre @ ''429'' @ post)) \<or>
      (\<exists>pre post. m = Some (pre @ ''rate limit'' @ post)))"
proof (cases m)
  case None
  then show ?thesis by (simp add: isRateLimit_def)
next
  case (Some s)
  have a: "s \<noteq> [] \<and> str_includes s ''429'' \<longleftrightarrow> (\<exists>pre post. s = pre @ ''429'' @ post)"
    unfolding str_includes_sublist by auto
  have b: "s \<noteq> [] \<and> str_includes s ''rate limit'' \<longleftrightarrow>
      (\<exists>pre post. s = pre @ ''rate limit'' @ post)"
    unfolding str_includes_sublist by auto
  show ?thesis
    unfolding isRateLimit_def Some option.case a b by simp
qed

lemma rate_limited_at_iff:
  "rate_limited_at operation k \<longleftrightarrow> (\<exists>st m. operation k = Inl (Thrown st m) \<and> isRateLimit st m)"
  by (auto simp: rate_limited_at_def split: sum.splits thrown.splits)

lemma rate_limit_exceeded_is_rate_limit:
  "isRateLimit None (Some ''API rate limit exceeded. Please try again later.'')"
  by code_simp

lemma max_retries_exceeded_differs: "max_retries_exceeded m \<noteq> rate_limit_exceeded"
  by (simp add: max_retries_exceeded_def rate_limit_exceeded_def)

lemma retry_all_rate_limited:
  assumes "\<forall>k\<le>3. rate_limited_at operation k"
  shows "retryWithBackoff operation jitter 0 =
     (Raised rate_limit_exceeded,
      [Backoff 2000 (jitter 0), Backoff 4000 (jitter 1), Backoff 8000 (jitter 2)])"
proof -
  from assms have "rate_limited_at operation 0" "rate_limited_at operation 1"
    "rate_limited_at operation 2" "rate_limited_at operation 3"
    by simp_all
  then obtain s0 m0 s1 m1 s2 m2 s3 m3 where
    e: "operation 0 = Inl (Thrown s0 m0)" "isRateLimit s0 m0"
       "operation 1 = Inl (Thrown s1 m1)" "isRateLimit s1 m1"
       "operation 2 = Inl (Thrown s2 m2)" "isRateLimit s2 m2"
       "operation 3 = Inl (Thrown s3 m3)" "isRateLimit s3 m3"
    unfolding rate_limited_at_iff by blast
  have r3: "retryWithBackoff operation jitter 3 = (Raised rate_limit_exceeded, [])"
    using e(7,8) by (rule retry_exhausted[of operation 3 s3 m3 jitter]) simp
  have r2: "retryWithBackoff operation jitter 2 =
      (Raised rate_limit_exceeded, [backoff_delay jitter 2])"
    using retry_again[of operation 2 s2 m2 jitter] e(5,6) r3 by simp
  have r1: "retryWithBackoff operation jitter 1 =
      (Raised rate_limit_exceeded, [backoff_delay jitter 1, backoff_delay jitter 2])"
    using retry_again[of operation 1 s1 m1 jitter] e(3,4) r2 by (simp add: numeral_2_eq_2)
  have r0: "retryWithBackoff operation jitter 0 =
      (Raised rate_limit_exceeded,
       [backoff_delay jitter 0, backoff_delay jitter 1, backoff_delay jitter 2])"
    using retry_again[of operation 0 s0 m0 jitter] e(1,2) r1 by simp
  show ?thesis unfolding r0 by (simp add: backoff_delay_def)
qed

lemma final_outcome_exceeded:
  assumes "final_outcome operation n = Raised rate_limit_exceeded"
  shows "rate_limited_at operation n"
proof (cases "operation n")
  case (Inr v)
  with assms show ?thesis by (simp add: final_outcome_def)
next
  case (Inl t)
  show ?thesis
  proof (cases t)
    case Nullish
    with Inl assms show ?thesis by (simp add: final_outcome_def)
  next
    case (Thrown st m)
    show ?thesis
    proof (rule ccontr)
      assume "\<not> rate_limited_at operation n"
      with Inl Thrown have nrl: "\<not> isRateLimit st m" by (simp add: rate_limited_at_def)
      with assms Inl Thrown
      have "Thrown st m = rate_limit_exceeded \<or> max_retries_exceeded m = rate_limit_exceeded"
        by (auto simp: final_outcome_def split: if_splits)
      then have "Thrown st m = rate_limit_exceeded"
        using max_retries_exceeded_differs by blast
      then have "isRateLimit st m"
        using rate_limit_exceeded_is_rate_limit by (auto simp: rate_limit_exceeded_def)
      with nrl show False by simp
    qed
  qed
qed

text \<open>
  Claim C3, as amended. retryWithBackoff calls the operation again only after it has raised
  a rate-limit error, which is a value with status 429 or with a message that contains
  "429" or "rate limit" (first part). Started with retryCount 0 it makes some number
  \<open>n \<le> 3\<close> of retries: the calls \<open>0 .. n - 1\<close> raised rate-limit errors, the time waited
  before retry \<open>k + 1\<close> is \<open>1000 * 2 ^ (k + 1)\<close> milliseconds plus the jitter drawn then, call
  \<open>n\<close> is the last one, and its outcome decides the result: a value is returned; a
  rate-limit error (then \<open>n = 3\<close>) gives the error "API rate limit exceeded. Please try
  again later."; any other raised value is raised again as it is when \<open>n < 3\<close> and wrapped
  in "Maximum retry attempts (3) exceeded: ..." when \<open>n = 3\<close>; a raised \<^verbatim>\<open>null\<close> or
  \<^verbatim>\<open>undefined\<close> gives a TypeError (second part). In particular a first error that is not
  a rate-limit error is raised again at once with no delay (third part), four rate-limit
  errors in a row give the rate-limit-exceeded error after the delays 2000, 4000 and 8000
  plus jitter (fourth part), and that error is raised in no other case (fifth part).
\<close>

theorem retryWithBackoff_policy:
  "(\<forall>st m. isRateLimit st m \<longleftrightarrow>
        (st = Some 429 \<or>
         (\<exists>pre post. m = Some (pre @ ''429'' @ post)) \<or>
         (\<exists>pre post. m = Some (pre @ ''rate limit'' @ post)))) \<and>
   (\<exists>n\<le>3.
      snd (retryWithBackoff operation jitter 0) =
        map (\<lambda>k. Backoff (1000 * 2 ^ (k + 1)) (jitter k)) [0..<n] \<and>
      (\<forall>k<n. \<exists>st m. operation k = Inl (Thrown st m) \<and> isRateLimit st m) \<and>
      fst (retryWithBackoff operation jitter 0) =
        (case operation n of
           Inr v \<Rightarrow> Returned v
         | Inl Nullish \<Rightarrow> RaisedTypeError
         | Inl (Thrown st m) \<Rightarrow>
             if isRateLimit st m \<and> n = 3 then
               Raised (Thrown None (Some ''API rate limit exceeded. Please try again later.''))
             else if n < 3 then Raised (Thrown st m)
             else Raised (Thrown None (Some (''Maximum retry attempts (3) exceeded: '' @
                    (case m of None \<Rightarrow> ''undefined'' | Some s \<Rightarrow> s))))) \<and>
      (n < 3 \<longrightarrow> \<not> (\<exists>st m. operation n = Inl (Thrown st m) \<and> isRateLimit st m))) \<and>
   (\<forall>st m. operation 0 = Inl (Thrown st m) \<and> \<not> isRateLimit st m \<longrightarrow>
        retryWithBackoff operation jitter 0 = (Raised (Thrown st m), [])) \<and>
   ((\<forall>k\<le>3. \<exists>st m. operation k = Inl (Thrown st m) \<and> isRateLimit st m) \<longrightarrow>
        retryWithBackoff operation jitter 0 =
          (Raised (Thrown None (Some ''API rate limit exceeded. Please try again later.'')),
           [Backoff 2000 (jitter 0), Backoff 4000 (jitter 1), Backoff 8000 (jitter 2)])) \<and>
   (fst (retryWithBackoff operation jitter 0) =
      Raised (Thrown None (Some ''API rate limit exceeded. Please try again later.'')) \<longleftrightarrow>
        (\<forall>k\<le>3. \<exists>st m. operation k = Inl (Thrown st m) \<and> isRateLimit st m))"
proof -
  let ?R = "retryWithBackoff operation jitter 0"
  let ?rl = "\<lambda>k. \<exists>st m. operation k = Inl (Thrown st m) \<and> isRateLimit st m"
  have rl: "\<And>k. rate_limited_at operation k \<longleftrightarrow> ?rl k"
    by (rule rate_limited_at_iff)
  obtain n where
    c1: "snd ?R = map (backoff_delay jitter) [0..<n]" and
    c2: "n \<le> 3" and
    c3: "\<forall>k<n. rate_limited_at operation k" and
    c4: "rate_limited_at operation n \<longrightarrow> 3 \<le> n" and
    c5: "fst ?R = final_outcome operation n"
    using retry_char[of operation jitter 0] by auto
  have bd: "backoff_delay jitter = (\<lambda>k. Backoff (1000 * 2 ^ (k + 1)) (jitter k))"
    by (rule ext) (simp add: backoff_delay_def)
  have fo: "final_outcome operation n =
        (case operation n of
           Inr v \<Rightarrow> Returned v
         | Inl Nullish \<Rightarrow> RaisedTypeError
         | Inl (Thrown st m) \<Rightarrow>
             if isRateLimit st m \<and> n = 3 then
               Raised (Thrown None (Some ''API rate limit exceeded. Please try again later.''))
             else if n < 3 then Raised (Thrown st m)
             else Raised (Thrown None (Some (''Maximum retry attempts (3) exceeded: '' @
                    (case m of None \<Rightarrow> ''undefined'' | Some s \<Rightarrow> s)))))"
  proof (cases "operation n")
    case (Inr v)
    then show ?thesis by (simp add: final_outcome_def)
  next
    case (Inl t)
    show ?thesis
    proof (cases t)
      case Nullish
      with Inl show ?thesis by (simp add: final_outcome_def)
    next
      case (Thrown st m)
      have "isRateLimit st m \<longrightarrow> n = 3"
        using c4 c2 Inl Thrown by (simp add: rate_limited_at_def)
      then show ?thesis
        using Inl Thrown
        by (auto simp: final_outcome_def rate_limit_exceeded_def max_retries_exceeded_def
            text_of_def)
    qed
  qed
  have a0: "\<forall>st m. isRateLimit st m \<longleftrightarrow>
        (st = Some 429 \<or>
         (\<exists>pre post. m = Some (pre @ ''429'' @ post)) \<or>
         (\<exists>pre post. m = Some (pre @ ''rate limit'' @ post)))"
    using isRateLimit_iff by blast
  have a1: "snd ?R = map (\<lambda>k. Backoff (1000 * 2 ^ (k + 1)) (jitter k)) [0..<n]"
    using c1 unfolding bd .
  have a2: "\<forall>k<n. ?rl k" using c3 rl by blast
  have a3: "n < 3 \<longrightarrow> \<not> ?rl n" using c4 rl by auto
  have a: "\<exists>n\<le>3.
      snd ?R = map (\<lambda>k. Backoff (1000 * 2 ^ (k + 1)) (jitter k)) [0..<n] \<and>
      (\<forall>k<n. ?rl k) \<and>
      fst ?R =
        (case operation n of
           Inr v \<Rightarrow> Returned v
         | Inl Nullish \<Rightarrow> RaisedTypeError
         | Inl (Thrown st m) \<Rightarrow>
             if isRateLimit st m \<and> n = 3 then
               Raised (Thrown None (Some ''API rate limit exceeded. Please try again later.''))
             else if n < 3 then Raised (Thrown st m)
             else Raised (Thrown None (Some (''Maximum retry attempts (3) exceeded: '' @
                    (case m of None \<Rightarrow> ''undefined'' | Some s \<Rightarrow> s))))) \<and>
      (n < 3 \<longrightarrow> \<not> ?rl n)"
    using c2 a1 a2 a3 c5[unfolded fo] by (intro exI[of _ n] conjI)
  have b: "\<forall>st m. operation 0 = Inl (Thrown st m) \<and> \<not> isRateLimit st m \<longrightarrow>
        ?R = (Raised (Thrown st m), [])"
    using retry_rethrow[of operation 0 _ _ jitter] by simp
  have all: "(\<forall>k\<le>3. ?rl k) \<longleftrightarrow> (\<forall>k\<le>3. rate_limited_at operation k)"
    using rl by simp
  have c: "(\<forall>k\<le>3. ?rl k) \<longrightarrow>
        ?R = (Raised (Thrown None (Some ''API rate limit exceeded. Please try again later.'')),
           [Backoff 2000 (jitter 0), Backoff 4000 (jitter 1), Backoff 8000 (jitter 2)])"
    unfolding all using retry_all_rate_limited[of operation jitter]
    by (simp add: rate_limit_exceeded_def)
  have d: "fst ?R = Raised (Thrown None (Some ''API rate limit exceeded. Please try again later.''))
      \<longleftrightarrow> (\<forall>k\<le>3. ?rl k)"
  proof
    assume "\<forall>k\<le>3. ?rl k"
    with c show "fst ?R =
        Raised (Thrown None (Some ''API rate limit exceeded. Please try again later.''))"
      by simp
  next
    assume "fst ?R =
        Raised (Thrown None (Some ''API rate limit exceeded. Please try again later.''))"
    then have "final_outcome operation n = Raised rate_limit_exceeded"
      using c5 by (simp add: rate_limit_exceeded_def)
    then have at_n: "rate_limited_at operation n" by (rule final_outcome_exceeded)
    with c4 c2 have "n = 3" by simp
    with c3 at_n have "\<forall>k\<le>3. rate_limited_at operation k"
      by (metis le_neq_implies_less)
    then show "\<forall>k\<le>3. ?rl k" using all by blast
  qed
  from a0 a b c d show ?thesis by blast
qed

lemma always_429_rate_limited:
  "mistral_operation always_429 k = Inl (Thrown (Some 429) (Some ''Rate limit exceeded'')) \<and>
   isRateLimit (Some 429) (Some ''Rate limit exceeded'')"
  by (simp add: mistral_operation_def always_429_def mistral_attempt_def
      mistral_try_def isRateLimit_def)

lemma always_500_error:
  "mistral_operation always_500 0 =
     Inl (Thrown None (Some ''AI Service Error: Mistral API error: 500 {}''))"
  by code_simp

lemma always_500_not_rate_limit:
  "\<not> isRateLimit None (Some ''AI Service Error: Mistral API error: 500 {}'')"
  by code_simp

text \<open>
  The theorem at an API that always answers 429 (three retries, then the
  rate-limit-exceeded error) and at one that always answers 500 (raised at once, no delay).
\<close>

theorem retryWithBackoff_policy_witness:
  "mistral_operation always_429 0 = Inl (Thrown (Some 429) (Some ''Rate limit exceeded'')) \<and>
   mistral_operation always_429 1 = Inl (Thrown (Some 429) (Some ''Rate limit exceeded'')) \<and>
   mistral_operation always_429 2 = Inl (Thrown (Some 429) (Some ''Rate limit exceeded'')) \<and>
   mistral_operation always_429 3 = Inl (Thrown (Some 429) (Some ''Rate limit exceeded'')) \<and>
   isRateLimit (Some 429) (Some ''Rate limit exceeded'') \<and>
   generateMistralResponse always_429 half_second =
     (Raised (Thrown None (Some ''API rate limit exceeded. Please try again later.'')),
      [Backoff 2000 500, Backoff 4000 500, Backoff 8000 500]) \<and>
   mistral_operation always_500 0 =
     Inl (Thrown None (Some ''AI Service Error: Mistral API error: 500 {}'')) \<and>
   \<not> isRateLimit None (Some ''AI Service Error: Mistral API error: 500 {}'') \<and>
   generateMistralResponse always_500 half_second =
     (Raised (Thrown None (Some ''AI Service Error: Mistral API error: 500 {}'')), [])"
proof -
  have a: "\<forall>k\<le>3. \<exists>st m. mistral_operation always_429 k = Inl (Thrown st m) \<and> isRateLimit st m"
    using always_429_rate_limited by blast
  from retryWithBackoff_policy[of "mistral_operation always_429" half_second] a
  have r429: "generateMistralResponse always_429 half_second =
     (Raised (Thrown None (Some ''API rate limit exceeded. Please try again later.'')),
      [Backoff 2000 500, Backoff 4000 500, Backoff 8000 500])"
    unfolding generateMistralResponse_def by (simp add: half_second_def)
  from retryWithBackoff_policy[of "mistral_operation always_500" half_second]
    always_500_error always_500_not_rate_limit
  have r500: "generateMistralResponse always_500 half_second =
     (Raised (Thrown None (Some ''AI Service Error: Mistral API error: 500 {}'')), [])"
    unfolding generateMistralResponse_def by blast
  show ?thesis
    using always_429_rate_limited r429 always_500_error always_500_not_rate_limit r500
    by blast
qed

text \<open>
  Against the claim as first worded: an API that always answers 500 with the body
  \<open>[429]\<close> raises an error without status 429 whose message does not contain "rate limit",
  yet the call is retried three times and ends in the rate-limit-exceeded error, because the
  message contains "429". And an error that is not a rate-limit error, raised by the fourth
  call, is not raised again as it is.
\<close>

theorem retryWithBackoff_counterexample:
  "mistral_operation always_500_429 0 =
     Inl (Thrown None (Some ''AI Service Error: Mistral API error: 500 [429]'')) \<and>
   \<not> rate_limit_signal_spec
       (Thrown None (Some ''AI Service Error: Mistral API error: 500 [429]'')) \<and>
   generateMistralResponse always_500_429 half_second =
     (Raised (Thrown None (Some ''API rate limit exceeded. Please try again later.'')),
      [Backoff 2000 500, Backoff 4000 500, Backoff 8000 500]) \<and>
   \<not> rate_limit_signal_spec (Thrown None (Some ''boom'')) \<and>
   retryWithBackoff (\<lambda>k. if k < 3 then Inl (Thrown (Some 429) None)
                         else (Inl (Thrown None (Some ''boom'')) :: thrown + string))
       half_second 0 =
     (Raised (Thrown None (Some ''Maximum retry attempts (3) exceeded: boom'')),
      [Backoff 2000 500, Backoff 4000 500, Backoff 8000 500])"
  by code_simp

section \<open>Table relevance: a name that is not a table\<close>

text \<open>
  Claim C5 says that every name identifyRelevantTablesParallel returns is a key of the
  schema. The filter of identifyRelevantTables (and the one applied to the tables of the
  prompt analysis) tests \<^verbatim>\<open>schemas[table]\<close>, which is also truthy for a name that the
  schema object inherits. With the single table \<open>users\<close>, no table from the prompt analysis
  and the model answering \<open>constructor\<close>, the result is the list with the one name
  \<open>constructor\<close>, which is not a key of the schema; the same happens when the prompt
  analysis names \<open>Constructor\<close>.
\<close>

theorem identifyRelevantTablesParallel_inherited_name:
  "identifyRelevantTablesParallel parse_empty_array ''list everything'' [''users'']
     (TableArray []) (Content ''constructor'') (Content ''[]'') = [''constructor''] \<and>
   ''constructor'' \<notin> set [''users''] \<and>
   identifyRelevantTablesParallel parse_empty_array ''list everything'' [''users'']
     (TableArray [Some ''Constructor'']) Failed Failed = [''constructor'']"
  by code_simp

end
